theory Spec2Isabelle
  imports Complex_Main "HOL-Library.Word"
begin

section \<open>The CPU utility command of CHIPSEC (\<^verbatim>\<open>chipsec/utilcmd/cpu_cmd.py\<close>)\<close>

text \<open>
  The command class \<^verbatim>\<open>CPUCommand\<close> is glue between the parsed command line and the
  CPU hardware abstraction layer (\<^verbatim>\<open>chipsec.hal.cpu.CPU\<close>, reached as
  \<^verbatim>\<open>self.cs.cpu\<close>, \<^verbatim>\<open>self.cs.msr\<close> and \<^verbatim>\<open>self.cs.helper\<close>).
  The layer itself is not part of the file; every method of it that the command calls is a
  parameter of the model (a field of the record \<open>hal\<close>), free to fail and free to change
  the platform state.
\<close>

subsection \<open>Python values: integers rendered by format specifications\<close>

text \<open>
  Python integers are unbounded (\<open>int\<close>). The format specifications the command uses
  are \<^verbatim>\<open>d\<close> (decimal), \<^verbatim>\<open>08X\<close> and \<^verbatim>\<open>016X\<close> (upper-case
  hexadecimal, zero-padded to a minimum width, the sign counted in the width). None of them
  ever drops a digit.
\<close>

definition digit_char :: "nat \<Rightarrow> char" where
  "digit_char d = ''0123456789ABCDEF'' ! d"

function digits_of :: "nat \<Rightarrow> nat \<Rightarrow> string" where
  "digits_of b n =
     (if b < 2 \<or> n < b then [digit_char n]
      else digits_of b (n div b) @ [digit_char (n mod b)])"
  by pat_completeness auto
termination
  by (relation "measure (\<lambda>(b, n). n)") auto

declare digits_of.simps [simp del]

definition zero_pad :: "nat \<Rightarrow> string \<Rightarrow> string" where
  "zero_pad width s = replicate (width - length s) (CHR ''0'') @ s"

definition py_fmt_d :: "int \<Rightarrow> string" where
  "py_fmt_d i = (if i < 0 then ''-'' @ digits_of 10 (nat (- i)) else digits_of 10 (nat i))"

definition py_fmt_X :: "nat \<Rightarrow> int \<Rightarrow> string" where
  "py_fmt_X width i =
     (if i < 0 then ''-'' @ zero_pad (width - 1) (digits_of 16 (nat (- i)))
      else zero_pad width (digits_of 16 (nat i)))"

text \<open>Reading a hexadecimal text back, to state that a rendering keeps the whole value.\<close>

definition hex_digit_value :: "char \<Rightarrow> nat" where
  "hex_digit_value c =
     (let k = of_char c :: nat in
      if 48 \<le> k \<and> k \<le> 57 then k - 48 else if 65 \<le> k \<and> k \<le> 70 then k - 55 else 0)"

definition hex_value :: "string \<Rightarrow> nat" where
  "hex_value s = foldl (\<lambda>acc c. 16 * acc + hex_digit_value c) 0 s"

definition py_str_list :: "int list \<Rightarrow> string" where
  \<comment> \<open>\<^verbatim>\<open>str\<close> of a list of integers: \<^verbatim>\<open>[0, 1, 2]\<close>\<close>
  "py_str_list xs =
     ''['' @ (case xs of [] \<Rightarrow> []
              | y # ys \<Rightarrow> py_fmt_d y @ concat (map (\<lambda>z. '', '' @ py_fmt_d z) ys)) @ '']''"

definition py_range :: "int \<Rightarrow> int list" where
  \<comment> \<open>\<^verbatim>\<open>range(n)\<close>: empty when \<open>n \<le> 0\<close>\<close>
  "py_range n = map int [0..<nat n]"

subsection \<open>Exceptions, return values, the platform\<close>

datatype exn =
    CPURuntimeError string
  | TypeError string
  | OtherException string   \<comment> \<open>any other subclass of \<^verbatim>\<open>Exception\<close> raised below the command\<close>
  | NonException string     \<comment> \<open>\<^verbatim>\<open>BaseException\<close> only: \<^verbatim>\<open>KeyboardInterrupt\<close>, \<^verbatim>\<open>SystemExit\<close>\<close>

fun is_Exception :: "exn \<Rightarrow> bool" where
  "is_Exception (NonException _) = False"
| "is_Exception _ = True"

record topology =
  packages :: "(int \<times> int list) list"   \<comment> \<open>\<^verbatim>\<open>topology['packages']\<close>, in iteration order\<close>
  cores :: "(int \<times> int list) list"      \<comment> \<open>\<^verbatim>\<open>topology['cores']\<close>\<close>

datatype pyval =
    PyNone
  | PyBool bool
  | PyInt int
  | PyRegs int int int int
  | PyTopology topology

text \<open>
  The methods of the hardware abstraction layer that the command calls. Each takes the
  platform state \<open>'hw\<close> and returns an outcome (\<open>Inl\<close> the exception raised) with the
  state it leaves. \<open>time\<close> is \<^verbatim>\<open>time.time()\<close>; \<open>fmt_3f\<close> is the rendering
  \<^verbatim>\<open>'{:.3f}'\<close> of a float, which is not modelled. \<open>read_cr_None\<close> is
  \<^verbatim>\<open>read_cr\<close> handed \<^verbatim>\<open>None\<close> for the thread id, which \<^verbatim>\<open>cpu_cr\<close> does
  when its attribute \<^verbatim>\<open>thread\<close> is \<^verbatim>\<open>None\<close> and a register number is set.
\<close>

record 'hw hal =
  CPU :: "'hw \<Rightarrow> (exn + unit) \<times> 'hw"
  is_HT_active :: "'hw \<Rightarrow> (exn + bool) \<times> 'hw"
  get_number_logical_processor_per_core :: "'hw \<Rightarrow> (exn + int) \<times> 'hw"
  get_number_logical_processor_per_package :: "'hw \<Rightarrow> (exn + int) \<times> 'hw"
  get_number_physical_processor_per_package :: "'hw \<Rightarrow> (exn + int) \<times> 'hw"
  get_number_threads_from_APIC_table :: "'hw \<Rightarrow> (exn + int) \<times> 'hw"
  get_number_sockets_from_APIC_table :: "'hw \<Rightarrow> (exn + int) \<times> 'hw"
  get_threads_count :: "'hw \<Rightarrow> (exn + int) \<times> 'hw"
  get_cpu_topology :: "'hw \<Rightarrow> (exn + topology) \<times> 'hw"
  get_cpu_thread_count :: "'hw \<Rightarrow> (exn + int) \<times> 'hw"
  read_cr :: "int \<Rightarrow> int \<Rightarrow> 'hw \<Rightarrow> (exn + int) \<times> 'hw"
  read_cr_None :: "int \<Rightarrow> 'hw \<Rightarrow> (exn + int) \<times> 'hw"
  write_cr :: "int \<Rightarrow> int \<Rightarrow> int \<Rightarrow> 'hw \<Rightarrow> (exn + unit) \<times> 'hw"
  cpuid :: "int \<Rightarrow> int \<Rightarrow> 'hw \<Rightarrow> (exn + int \<times> int \<times> int \<times> int) \<times> 'hw"
  dump_page_tables :: "int \<Rightarrow> string \<Rightarrow> 'hw \<Rightarrow> (exn + unit) \<times> 'hw"
  time :: "'hw \<Rightarrow> real"
  fmt_3f :: "real \<Rightarrow> string"

datatype hal_call =
    Call_CPU
  | Call_is_HT_active
  | Call_get_number_logical_processor_per_core
  | Call_get_number_logical_processor_per_package
  | Call_get_number_physical_processor_per_package
  | Call_get_number_threads_from_APIC_table
  | Call_get_number_sockets_from_APIC_table
  | Call_get_threads_count
  | Call_get_cpu_topology
  | Call_get_cpu_thread_count
  | Call_read_cr int int
  | Call_read_cr_None int
  | Call_write_cr int int int
  | Call_cpuid int int
  | Call_dump_page_tables int string

text \<open>
  What a run of the command can be observed to do: the platform state, the lines given to
  \<^verbatim>\<open>self.logger.log\<close>, the lines printed, and the calls made into the layer, each with
  its outcome, in order.
\<close>

record 'hw world =
  hw :: 'hw
  log :: "string list"
  stdout :: "string list"
  trace :: "(hal_call \<times> (exn + pyval)) list"

type_synonym ('a, 'hw) cmd = "'hw world \<Rightarrow> (exn + 'a) \<times> 'hw world"

definition bind_cmd :: "('a, 'hw) cmd \<Rightarrow> ('a \<Rightarrow> ('b, 'hw) cmd) \<Rightarrow> ('b, 'hw) cmd" where
  \<comment> \<open>sequencing: an exception skips the rest\<close>
  "bind_cmd m f w = (case m w of (Inl e, w') \<Rightarrow> (Inl e, w') | (Inr x, w') \<Rightarrow> f x w')"

definition return_cmd :: "'a \<Rightarrow> ('a, 'hw) cmd" where
  "return_cmd x w = (Inr x, w)"

definition raise_cmd :: "exn \<Rightarrow> ('a, 'hw) cmd" where
  "raise_cmd e w = (Inl e, w)"

definition logger_log :: "string \<Rightarrow> (unit, 'hw) cmd" where
  "logger_log s w = (Inr (), w\<lparr>log := log w @ [s]\<rparr>)"

definition invoke ::
  "hal_call \<Rightarrow> ('a \<Rightarrow> pyval) \<Rightarrow> ('hw \<Rightarrow> (exn + 'a) \<times> 'hw) \<Rightarrow> ('a, 'hw) cmd" where
  \<comment> \<open>a call into the layer, recorded in the trace with its outcome\<close>
  "invoke c as_py f w =
     (case f (hw w) of
        (r, h') \<Rightarrow> (r, w\<lparr>hw := h', trace := trace w @ [(c, map_sum id as_py r)]\<rparr>))"

fun for_each :: "'a list \<Rightarrow> ('a \<Rightarrow> (unit, 'hw) cmd) \<Rightarrow> (unit, 'hw) cmd" where
  \<comment> \<open>a \<^verbatim>\<open>for\<close> loop: an exception in the body leaves the loop\<close>
  "for_each [] body w = (Inr (), w)"
| "for_each (x # xs) body w =
     (case body x w of (Inl e, w') \<Rightarrow> (Inl e, w') | (Inr _, w') \<Rightarrow> for_each xs body w')"

subsection \<open>The parsed command line\<close>

datatype subcommand = Cmd_info | Cmd_cr | Cmd_cpuid | Cmd_pt | Cmd_topology

text \<open>
  The attributes \<^verbatim>\<open>requires_driver\<close> leaves on the command: the optional positionals
  default to \<^verbatim>\<open>None\<close>, \<^verbatim>\<open>ecx\<close> to 0.
\<close>

record args =
  self_func :: subcommand
  self_thread :: "int option"
  self_cr_number :: "int option"
  self_value :: "int option"
  self_eax :: int
  self_ecx :: int
  self_cr3 :: "int option"

subsection \<open>The subcommands\<close>

definition try_except_Exception_pass :: "(unit, 'hw) cmd \<Rightarrow> (unit, 'hw) cmd" where
  \<comment> \<open>\<^verbatim>\<open>try: ... except Exception: pass\<close>\<close>
  "try_except_Exception_pass m w =
     (case m w of
        (Inl e, w') \<Rightarrow> if is_Exception e then (Inr (), w') else (Inl e, w')
      | (Inr x, w') \<Rightarrow> (Inr x, w'))"

definition cpu_info :: "'hw hal \<Rightarrow> (pyval, 'hw) cmd" where
  "cpu_info h =
     bind_cmd (logger_log ''[CHIPSEC] CPU information:'') (\<lambda>_.
     bind_cmd (invoke Call_is_HT_active PyBool (is_HT_active h)) (\<lambda>ht.
     bind_cmd (invoke Call_get_number_logical_processor_per_core PyInt
                 (get_number_logical_processor_per_core h)) (\<lambda>threads_per_core.
     bind_cmd (invoke Call_get_number_logical_processor_per_package PyInt
                 (get_number_logical_processor_per_package h)) (\<lambda>threads_per_pkg.
     bind_cmd (invoke Call_get_number_physical_processor_per_package PyInt
                 (get_number_physical_processor_per_package h)) (\<lambda>cores_per_pkg.
     bind_cmd (logger_log (''          Hyper-Threading         : ''
                 @ (if ht then ''Enabled'' else ''Disabled''))) (\<lambda>_.
     bind_cmd (logger_log (''          CPU cores per package   : '' @ py_fmt_d cores_per_pkg)) (\<lambda>_.
     bind_cmd (logger_log (''          CPU threads per core    : '' @ py_fmt_d threads_per_core)) (\<lambda>_.
     bind_cmd (logger_log (''          CPU threads per package : '' @ py_fmt_d threads_per_pkg)) (\<lambda>_.
     bind_cmd (try_except_Exception_pass
       (bind_cmd (invoke Call_get_number_threads_from_APIC_table PyInt
                   (get_number_threads_from_APIC_table h)) (\<lambda>threads_count.
        bind_cmd (invoke Call_get_number_sockets_from_APIC_table PyInt
                   (get_number_sockets_from_APIC_table h)) (\<lambda>sockets_count.
        bind_cmd (logger_log (''          Number of sockets       : '' @ py_fmt_d sockets_count)) (\<lambda>_.
        logger_log (''          Number of CPU threads   : '' @ py_fmt_d threads_count)))))) (\<lambda>_.
     return_cmd PyNone))))))))))"

definition cpu_topology :: "'hw hal \<Rightarrow> (pyval, 'hw) cmd" where
  "cpu_topology h =
     bind_cmd (logger_log ''[CHIPSEC] CPU information:'') (\<lambda>_.
     bind_cmd (invoke Call_is_HT_active PyBool (is_HT_active h)) (\<lambda>ht.
     bind_cmd (invoke Call_get_number_logical_processor_per_core PyInt
                 (get_number_logical_processor_per_core h)) (\<lambda>threads_per_core.
     bind_cmd (invoke Call_get_number_logical_processor_per_package PyInt
                 (get_number_logical_processor_per_package h)) (\<lambda>threads_per_pkg.
     bind_cmd (invoke Call_get_number_physical_processor_per_package PyInt
                 (get_number_physical_processor_per_package h)) (\<lambda>cores_per_pkg.
     bind_cmd (invoke Call_get_threads_count PyInt (get_threads_count h)) (\<lambda>num_threads.
     bind_cmd (logger_log (''          Hyper-Threading         : ''
                 @ (if ht then ''Enabled'' else ''Disabled''))) (\<lambda>_.
     bind_cmd (logger_log (''          CPU cores per package   : '' @ py_fmt_d cores_per_pkg)) (\<lambda>_.
     bind_cmd (logger_log (''          CPU threads per core    : '' @ py_fmt_d threads_per_core)) (\<lambda>_.
     bind_cmd (logger_log (''          CPU threads per package : '' @ py_fmt_d threads_per_pkg)) (\<lambda>_.
     bind_cmd (logger_log (''          Total threads           : '' @ py_fmt_d num_threads)) (\<lambda>_.
     bind_cmd (invoke Call_get_cpu_topology PyTopology (get_cpu_topology h)) (\<lambda>topology.
     bind_cmd (logger_log ''          Packages:'') (\<lambda>_.
     bind_cmd (for_each (packages topology) (\<lambda>(p, ts).
                 logger_log (''              '' @ py_fmt_d p @ '': '' @ py_str_list ts))) (\<lambda>_.
     bind_cmd (logger_log ''          Cores:'') (\<lambda>_.
     bind_cmd (for_each (cores topology) (\<lambda>(c, ts).
                 logger_log (''              '' @ py_fmt_d c @ '': '' @ py_str_list ts))) (\<lambda>_.
     return_cmd (PyTopology topology)))))))))))))))))"

text \<open>
  \<^verbatim>\<open>cpu_cr\<close>: a write when a value is given, a read when only a register number is,
  and otherwise the enumeration of CR0, CR2, CR3, CR4 and CR8 on every thread.
  The positionals are filled in order, so a value comes with a register number and a
  register number with a thread. Formatting \<^verbatim>\<open>None\<close> with \<^verbatim>\<open>:d\<close> raises
  \<^verbatim>\<open>TypeError\<close>: the write formats its line before it calls \<^verbatim>\<open>write_cr\<close>, the
  read only after \<^verbatim>\<open>read_cr\<close> has returned.
\<close>

definition cr_thread_body :: "'hw hal \<Rightarrow> int \<Rightarrow> (unit, 'hw) cmd" where
  \<comment> \<open>the body of the loop of \<^verbatim>\<open>cpu_cr\<close> for one thread id\<close>
  "cr_thread_body h tid =
     bind_cmd (invoke (Call_read_cr tid 0) PyInt (read_cr h tid 0)) (\<lambda>cr0.
     bind_cmd (invoke (Call_read_cr tid 2) PyInt (read_cr h tid 2)) (\<lambda>cr2.
     bind_cmd (invoke (Call_read_cr tid 3) PyInt (read_cr h tid 3)) (\<lambda>cr3.
     bind_cmd (invoke (Call_read_cr tid 4) PyInt (read_cr h tid 4)) (\<lambda>cr4.
     bind_cmd (invoke (Call_read_cr tid 8) PyInt (read_cr h tid 8)) (\<lambda>cr8.
     bind_cmd (logger_log (''[CHIPSEC][cpu'' @ py_fmt_d tid @ ''] x86 Control Registers:'')) (\<lambda>_.
     bind_cmd (logger_log (''  CR0: 0x'' @ py_fmt_X 16 cr0)) (\<lambda>_.
     bind_cmd (logger_log (''  CR2: 0x'' @ py_fmt_X 16 cr2)) (\<lambda>_.
     bind_cmd (logger_log (''  CR3: 0x'' @ py_fmt_X 16 cr3)) (\<lambda>_.
     bind_cmd (logger_log (''  CR4: 0x'' @ py_fmt_X 16 cr4)) (\<lambda>_.
     logger_log (''  CR8: 0x'' @ py_fmt_X 16 cr8)))))))))))"

definition cpu_cr :: "'hw hal \<Rightarrow> args \<Rightarrow> (pyval, 'hw) cmd" where
  "cpu_cr h a =
     (case self_value a of
        Some v \<Rightarrow>
          (case (self_thread a, self_cr_number a) of
             (Some t, Some n) \<Rightarrow>
               bind_cmd (logger_log (''[CHIPSEC] CPU'' @ py_fmt_d t @ '': write CR'' @ py_fmt_d n
                           @ '' <- 0x'' @ py_fmt_X 8 v)) (\<lambda>_.
               bind_cmd (invoke (Call_write_cr t n v) (\<lambda>_. PyNone) (write_cr h t n v)) (\<lambda>_.
               return_cmd (PyBool True)))
           | _ \<Rightarrow> raise_cmd (TypeError ''unsupported format string passed to NoneType.__format__''))
      | None \<Rightarrow>
          (case self_cr_number a of
             Some n \<Rightarrow>
               (case self_thread a of
                  Some t \<Rightarrow>
                    bind_cmd (invoke (Call_read_cr t n) PyInt (read_cr h t n)) (\<lambda>val.
                    bind_cmd (logger_log (''[CHIPSEC] CPU'' @ py_fmt_d t @ '': read CR'' @ py_fmt_d n
                                @ '' -> 0x'' @ py_fmt_X 8 val)) (\<lambda>_.
                    return_cmd (PyInt val)))
                | None \<Rightarrow>
                    bind_cmd (invoke (Call_read_cr_None n) PyInt (read_cr_None h n)) (\<lambda>val.
                    raise_cmd
                      (TypeError ''unsupported format string passed to NoneType.__format__'')))
           | None \<Rightarrow>
               bind_cmd (invoke Call_get_cpu_thread_count PyInt (get_cpu_thread_count h)) (\<lambda>n.
               bind_cmd (for_each (py_range n) (cr_thread_body h)) (\<lambda>_.
               return_cmd PyNone))))"

definition cpu_cpuid :: "'hw hal \<Rightarrow> args \<Rightarrow> (pyval, 'hw) cmd" where
  "cpu_cpuid h a =
     bind_cmd (logger_log (''[CHIPSEC] CPUID < EAX: 0x'' @ py_fmt_X 8 (self_eax a))) (\<lambda>_.
     bind_cmd (logger_log (''[CHIPSEC]         ECX: 0x'' @ py_fmt_X 8 (self_ecx a))) (\<lambda>_.
     bind_cmd (invoke (Call_cpuid (self_eax a) (self_ecx a)) (\<lambda>(r1, r2, r3, r4). PyRegs r1 r2 r3 r4)
                 (cpuid h (self_eax a) (self_ecx a))) (\<lambda>(eax', ebx', ecx', edx').
     bind_cmd (logger_log (''[CHIPSEC] CPUID > EAX: 0x'' @ py_fmt_X 8 eax')) (\<lambda>_.
     bind_cmd (logger_log (''[CHIPSEC]         EBX: 0x'' @ py_fmt_X 8 ebx')) (\<lambda>_.
     bind_cmd (logger_log (''[CHIPSEC]         ECX: 0x'' @ py_fmt_X 8 ecx')) (\<lambda>_.
     bind_cmd (logger_log (''[CHIPSEC]         EDX: 0x'' @ py_fmt_X 8 edx')) (\<lambda>_.
     return_cmd PyNone)))))))"

definition quoted :: "string \<Rightarrow> string" where
  \<comment> \<open>a text between two apostrophes\<close>
  "quoted s = [CHR 0x27] @ s @ [CHR 0x27]"

definition pt_thread_body :: "'hw hal \<Rightarrow> int \<Rightarrow> (unit, 'hw) cmd" where
  \<comment> \<open>the body of the loop of \<^verbatim>\<open>cpu_pt\<close> for one thread id\<close>
  "pt_thread_body h tid =
     bind_cmd (invoke (Call_read_cr tid 3) PyInt (read_cr h tid 3)) (\<lambda>cr3.
     (let pt_fname = ''cpu'' @ py_fmt_d tid @ ''_pt_'' @ py_fmt_X 8 cr3 in
      bind_cmd (logger_log (''[CHIPSEC][cpu'' @ py_fmt_d tid @ ''] paging physical base (CR3): 0x''
                  @ py_fmt_X 16 cr3)) (\<lambda>_.
      bind_cmd (logger_log (''[CHIPSEC][cpu'' @ py_fmt_d tid @ ''] dumping paging hierarchy to ''
                  @ quoted pt_fname @ ''...'')) (\<lambda>_.
      invoke (Call_dump_page_tables cr3 pt_fname) (\<lambda>_. PyNone) (dump_page_tables h cr3 pt_fname)))))"

definition cpu_pt :: "'hw hal \<Rightarrow> args \<Rightarrow> (pyval, 'hw) cmd" where
  "cpu_pt h a =
     (case self_cr3 a of
        Some base \<Rightarrow>
          (let pt_fname = ''pt_'' @ py_fmt_X 8 base in
           bind_cmd (logger_log (''[CHIPSEC] paging physical base (CR3): 0x'' @ py_fmt_X 16 base)) (\<lambda>_.
           bind_cmd (logger_log (''[CHIPSEC] dumping paging hierarchy to '' @ quoted pt_fname
                       @ ''...'')) (\<lambda>_.
           bind_cmd (invoke (Call_dump_page_tables base pt_fname) (\<lambda>_. PyNone)
                       (dump_page_tables h base pt_fname)) (\<lambda>_.
           return_cmd PyNone))))
      | None \<Rightarrow>
          bind_cmd (invoke Call_get_cpu_thread_count PyInt (get_cpu_thread_count h)) (\<lambda>n.
          bind_cmd (for_each (py_range n) (pt_thread_body h)) (\<lambda>_.
          return_cmd PyNone)))"

subsection \<open>The runner\<close>

fun dispatch :: "subcommand \<Rightarrow> 'hw hal \<Rightarrow> args \<Rightarrow> (pyval, 'hw) cmd" where
  \<comment> \<open>\<^verbatim>\<open>self.func\<close>, as \<^verbatim>\<open>set_defaults\<close> binds it\<close>
  "dispatch Cmd_info h a = cpu_info h"
| "dispatch Cmd_cr h a = cpu_cr h a"
| "dispatch Cmd_cpuid h a = cpu_cpuid h a"
| "dispatch Cmd_pt h a = cpu_pt h a"
| "dispatch Cmd_topology h a = cpu_topology h"

definition elapsed_line :: "'hw hal \<Rightarrow> real \<Rightarrow> 'hw \<Rightarrow> string" where
  "elapsed_line h t s = ''[CHIPSEC] (cpu) time elapsed '' @ fmt_3f h (time h s - t)"

definition run :: "'hw hal \<Rightarrow> args \<Rightarrow> (unit, 'hw) cmd" where
  "run h a w =
     (let t = time h (hw w) in
      case invoke Call_CPU (\<lambda>_. PyNone) (CPU h) w of
        (Inl (CPURuntimeError msg), w1) \<Rightarrow> (Inr (), w1\<lparr>stdout := stdout w1 @ [msg]\<rparr>)
      | (Inl e, w1) \<Rightarrow> (Inl e, w1)
      | (Inr _, w1) \<Rightarrow>
          (case dispatch (self_func a) h a w1 of
             (Inl e, w2) \<Rightarrow> (Inl e, w2)
           | (Inr _, w2) \<Rightarrow> logger_log (elapsed_line h t (hw w2)) w2))"

subsection \<open>What the two loops leave behind\<close>

definition cr_lines :: "int \<Rightarrow> int \<times> int \<times> int \<times> int \<times> int \<Rightarrow> string list" where
  \<comment> \<open>the block of lines logged for one thread by the enumeration of \<^verbatim>\<open>cpu_cr\<close>\<close>
  "cr_lines tid regs =
     (case regs of (cr0, cr2, cr3, cr4, cr8) \<Rightarrow>
        [''[CHIPSEC][cpu'' @ py_fmt_d tid @ ''] x86 Control Registers:'',
         ''  CR0: 0x'' @ py_fmt_X 16 cr0,
         ''  CR2: 0x'' @ py_fmt_X 16 cr2,
         ''  CR3: 0x'' @ py_fmt_X 16 cr3,
         ''  CR4: 0x'' @ py_fmt_X 16 cr4,
         ''  CR8: 0x'' @ py_fmt_X 16 cr8])"

definition cr_reads ::
  "int \<Rightarrow> int \<times> int \<times> int \<times> int \<times> int \<Rightarrow> (hal_call \<times> (exn + pyval)) list" where
  \<comment> \<open>the five successful reads of one thread\<close>
  "cr_reads tid regs =
     (case regs of (cr0, cr2, cr3, cr4, cr8) \<Rightarrow>
        [(Call_read_cr tid 0, Inr (PyInt cr0)),
         (Call_read_cr tid 2, Inr (PyInt cr2)),
         (Call_read_cr tid 3, Inr (PyInt cr3)),
         (Call_read_cr tid 4, Inr (PyInt cr4)),
         (Call_read_cr tid 8, Inr (PyInt cr8))])"

text \<open>The two ways the loop over the thread ids \<open>0 ..< n\<close> can end, from the world \<open>w\<close>.\<close>

definition cr_completed :: "'hw world \<Rightarrow> int \<Rightarrow> 'hw world \<Rightarrow> bool" where
  \<comment> \<open>every read succeeded: a block of lines for each thread, five reads for each\<close>
  "cr_completed w n w' \<longleftrightarrow>
     (\<exists>rs. length rs = nat n \<and>
        log w' = log w @ concat (map2 cr_lines (py_range n) rs) \<and>
        trace w' = trace w @ concat (map2 cr_reads (py_range n) rs))"

definition cr_aborted :: "'hw world \<Rightarrow> int \<Rightarrow> exn \<Rightarrow> 'hw world \<Rightarrow> bool" where
  \<comment> \<open>a read of thread \<open>k\<close> raised \<open>e\<close>: blocks for the threads below \<open>k\<close> only, and
      the failed read is the last call made\<close>
  "cr_aborted w n e w' \<longleftrightarrow>
     (\<exists>k rs evs. 0 \<le> k \<and> k < n \<and> length rs = nat k \<and>
        log w' = log w @ concat (map2 cr_lines (py_range k) rs) \<and>
        trace w' = trace w @ concat (map2 cr_reads (py_range k) rs) @ evs \<and>
        evs \<noteq> [] \<and> (\<forall>ev\<in>set evs. \<exists>m. fst ev = Call_read_cr k m) \<and>
        snd (last evs) = Inl e)"

definition cpu_info_lines :: "bool \<Rightarrow> int \<Rightarrow> int \<Rightarrow> int \<Rightarrow> string list" where
  \<comment> \<open>what \<^verbatim>\<open>cpu_info\<close> logs from the four queries that do not use the APIC table\<close>
  "cpu_info_lines ht cores_per_pkg threads_per_core threads_per_pkg =
     [''[CHIPSEC] CPU information:'',
      ''          Hyper-Threading         : '' @ (if ht then ''Enabled'' else ''Disabled''),
      ''          CPU cores per package   : '' @ py_fmt_d cores_per_pkg,
      ''          CPU threads per core    : '' @ py_fmt_d threads_per_core,
      ''          CPU threads per package : '' @ py_fmt_d threads_per_pkg]"

text \<open>
  One thread of the loop of \<^verbatim>\<open>cpu_pt\<close>: the file the hierarchy is dumped to, the two
  lines logged, and the two calls made when both succeed.
\<close>

definition pt_fname :: "int \<Rightarrow> int \<Rightarrow> string" where
  "pt_fname tid v = ''cpu'' @ py_fmt_d tid @ ''_pt_'' @ py_fmt_X 8 v"

definition pt_lines :: "int \<Rightarrow> int \<Rightarrow> string list" where
  "pt_lines tid v =
     [''[CHIPSEC][cpu'' @ py_fmt_d tid @ ''] paging physical base (CR3): 0x'' @ py_fmt_X 16 v,
      ''[CHIPSEC][cpu'' @ py_fmt_d tid @ ''] dumping paging hierarchy to ''
        @ quoted (pt_fname tid v) @ ''...'']"

definition pt_events :: "int \<Rightarrow> int \<Rightarrow> (hal_call \<times> (exn + pyval)) list" where
  "pt_events tid v =
     [(Call_read_cr tid 3, Inr (PyInt v)),
      (Call_dump_page_tables v (pt_fname tid v), Inr PyNone)]"

text \<open>
  The layer applied to a list of threads in turn, from the platform state \<open>s\<close>: for each
  thread \<open>tid\<close> with its value \<open>v\<close>, \<^verbatim>\<open>read_cr(tid, 3)\<close> returns \<open>v\<close> and then
  \<^verbatim>\<open>dump_page_tables(v, fname)\<close> returns; the result is the state the last dump leaves,
  or \<open>None\<close> when a call raises or a read returns another value.
\<close>

fun pt_chain :: "'hw hal \<Rightarrow> (int \<times> int) list \<Rightarrow> 'hw \<Rightarrow> 'hw option" where
  "pt_chain h [] s = Some s"
| "pt_chain h ((tid, v) # tvs) s =
     (case read_cr h tid 3 s of
        (Inl e, s1) \<Rightarrow> None
      | (Inr v', s1) \<Rightarrow>
          if v' = v then
            (case dump_page_tables h v (pt_fname tid v) s1 of
               (Inl e, s2) \<Rightarrow> None
             | (Inr u, s2) \<Rightarrow> pt_chain h tvs s2)
          else None)"

text \<open>
  The layer failing on one thread, from the platform state \<open>s\<close>: either the read of CR3
  raises, and nothing is logged, or the read returns and the dump raises, after the two
  lines. The result is the exception, the lines logged for the thread, the calls made for
  it and the state left; \<open>None\<close> when neither call raises.
\<close>

definition pt_failed ::
  "'hw hal \<Rightarrow> int \<Rightarrow> 'hw \<Rightarrow>
     (exn \<times> string list \<times> (hal_call \<times> (exn + pyval)) list \<times> 'hw) option" where
  "pt_failed h tid s =
     (case read_cr h tid 3 s of
        (Inl e, s1) \<Rightarrow> Some (e, [], [(Call_read_cr tid 3, Inl e)], s1)
      | (Inr v, s1) \<Rightarrow>
          (case dump_page_tables h v (pt_fname tid v) s1 of
             (Inl e, s2) \<Rightarrow>
               Some (e, pt_lines tid v,
                     [(Call_read_cr tid 3, Inr (PyInt v)),
                      (Call_dump_page_tables v (pt_fname tid v), Inl e)], s2)
           | (Inr u, s2) \<Rightarrow> None))"

text \<open>The two ways the loop of \<^verbatim>\<open>cpu_pt\<close> over \<open>tids\<close> can end, from the world \<open>w\<close>.\<close>

definition pt_completed :: "'hw hal \<Rightarrow> 'hw world \<Rightarrow> int list \<Rightarrow> 'hw world \<Rightarrow> bool" where
  \<comment> \<open>every thread was read and dumped, in order; the world is \<open>w\<close> with the state the
      layer left, two lines and two calls for each thread\<close>
  "pt_completed h w tids w' \<longleftrightarrow>
     (\<exists>vs s. length vs = length tids \<and>
        pt_chain h (zip tids vs) (hw w) = Some s \<and>
        w' = w\<lparr>hw := s,
               log := log w @ concat (map2 pt_lines tids vs),
               trace := trace w @ concat (map2 pt_events tids vs)\<rparr>)"

definition pt_aborted :: "'hw hal \<Rightarrow> 'hw world \<Rightarrow> int list \<Rightarrow> exn \<Rightarrow> 'hw world \<Rightarrow> bool" where
  \<comment> \<open>the threads \<open>before\<close> were read and dumped, a call for \<open>tid\<close> raised \<open>e\<close>, and the
      threads of \<open>rest\<close> were neither read nor dumped: the failed call is the last one\<close>
  "pt_aborted h w tids e w' \<longleftrightarrow>
     (\<exists>before tid rest vs s lines evs s'.
        tids = before @ tid # rest \<and> length vs = length before \<and>
        pt_chain h (zip before vs) (hw w) = Some s \<and>
        pt_failed h tid s = Some (e, lines, evs, s') \<and>
        w' = w\<lparr>hw := s',
               log := log w @ concat (map2 pt_lines before vs) @ lines,
               trace := trace w @ concat (map2 pt_events before vs) @ evs\<rparr>)"

subsection \<open>A fake platform\<close>

text \<open>
  A layer with canned answers, to run the command on: \<open>n\<close> threads, of which those in
  \<open>absent\<close> do not respond; the state is the list of register writes so far, the newest
  first, and a register never written reads 0.
\<close>

type_synonym fake_state = "((int \<times> int) \<times> int) list"

definition fake_hal :: "int \<Rightarrow> int list \<Rightarrow> fake_state hal" where
  "fake_hal n absent =
     \<lparr> CPU = (\<lambda>s. (Inr (), s)),
       is_HT_active = (\<lambda>s. (Inr False, s)),
       get_number_logical_processor_per_core = (\<lambda>s. (Inr 1, s)),
       get_number_logical_processor_per_package = (\<lambda>s. (Inr n, s)),
       get_number_physical_processor_per_package = (\<lambda>s. (Inr n, s)),
       get_number_threads_from_APIC_table = (\<lambda>s. (Inr n, s)),
       get_number_sockets_from_APIC_table = (\<lambda>s. (Inr 1, s)),
       get_threads_count = (\<lambda>s. (Inr n, s)),
       get_cpu_topology = (\<lambda>s. (Inr \<lparr>packages = [(0, py_range n)],
                                       cores = map (\<lambda>t. (t, [t])) (py_range n)\<rparr>, s)),
       get_cpu_thread_count = (\<lambda>s. (Inr n, s)),
       read_cr = (\<lambda>t c s.
         if t \<in> set absent then (Inl (OtherException ''thread unavailable''), s)
         else (Inr (case map_of s (t, c) of Some v \<Rightarrow> v | None \<Rightarrow> 0), s)),
       read_cr_None = (\<lambda>c s. (Inl (TypeError ''thread id is None''), s)),
       write_cr = (\<lambda>t c v s.
         if t \<in> set absent then (Inl (OtherException ''thread unavailable''), s)
         else (Inr (), ((t, c), v) # s)),
       cpuid = (\<lambda>a c s. (Inr (0, 0, 0, 0), s)),
       dump_page_tables = (\<lambda>b f s. (Inr (), s)),
       time = (\<lambda>s. 0),
       fmt_3f = (\<lambda>x. ''0.000'') \<rparr>"

definition cmdline ::
  "subcommand \<Rightarrow> int option \<Rightarrow> int option \<Rightarrow> int option \<Rightarrow> int option \<Rightarrow> args" where
  \<comment> \<open>the attributes after parsing \<^verbatim>\<open>cpu <func> [thread [cr_number [value]]]\<close> or
      \<^verbatim>\<open>cpu pt [cr3]\<close>\<close>
  "cmdline f t n v b =
     \<lparr> self_func = f, self_thread = t, self_cr_number = n, self_value = v,
       self_eax = 0, self_ecx = 0, self_cr3 = b \<rparr>"

definition boot :: "'hw \<Rightarrow> 'hw world" where
  \<comment> \<open>nothing logged, printed or called yet\<close>
  "boot s = \<lparr> hw = s, log = [], stdout = [], trace = [] \<rparr>"

definition fresh :: fake_state where
  \<comment> \<open>no register written yet\<close>
  "fresh = []"

definition sample :: fake_state where
  \<comment> \<open>CR3 of the threads 0, 1 and 2\<close>
  "sample = [((0, 3), 0x12345000), ((1, 3), 0x1FFFF2000), ((2, 3), 0x7654F000)]"

definition no_APIC_hal :: "int \<Rightarrow> fake_state hal" where
  \<comment> \<open>the fake platform without a usable APIC table\<close>
  "no_APIC_hal n = (fake_hal n [])
     \<lparr> get_number_threads_from_APIC_table :=
         (\<lambda>s. (Inl (OtherException ''TopologyUnavailable''), s)),
       get_number_sockets_from_APIC_table :=
         (\<lambda>s. (Inl (OtherException ''TopologyUnavailable''), s)) \<rparr>"

definition no_CPU_hal :: "int \<Rightarrow> fake_state hal" where
  \<comment> \<open>the fake platform on which the constructor \<^verbatim>\<open>CPU(self.cs)\<close> refuses\<close>
  "no_CPU_hal n = (fake_hal n [])
     \<lparr> CPU := (\<lambda>s. (Inl (CPURuntimeError ''unsupported platform''), s)) \<rparr>"

section \<open>The layer below the command, modelled from the specification\<close>

text \<open>
  The hardware abstraction layer (\<^verbatim>\<open>chipsec.hal.cpu\<close>) and the driver below it are
  not among the sources. The definitions of this section are written from the
  specification alone, and the properties proved of them are properties of that design,
  not of code.
\<close>

subsection \<open>The page table walker\<close>

text \<open>
  Modelled from the spec: the page table walker behind \<^verbatim>\<open>dump_page_tables\<close>
  (specification, sections 3 and 4.2). A table has 1024 slots in the legacy 32-bit mode and
  512 otherwise; the walk is indexed by the number of levels that remain, 2 to 5 at the
  root. Reading a table page and decoding its slots (steps 1 and 2; the specification
  gives no field offsets) is the parameter \<open>mem\<close>: the decoded entries at a physical
  address, or \<open>None\<close> when the page cannot be read. Addresses are natural numbers, shown
  below \<open>2 ^ 64\<close> where they are reconstructed. A present entry is terminal when its
  page-size bit is set or no level remains below it; any other present entry is followed,
  an address of zero included. An entry at \<open>r\<close> remaining levels covers
  \<open>2 ^ (12 + index_bits * (r - 1))\<close> bytes: 4K at the last level, then 2M (4M in the
  legacy mode) and 1G.
\<close>

datatype paging_mode = Legacy32 | PAE | Long4Level | Long5Level

fun levels :: "paging_mode \<Rightarrow> nat" where
  "levels Legacy32 = 2"
| "levels PAE = 3"
| "levels Long4Level = 4"
| "levels Long5Level = 5"

fun index_bits :: "paging_mode \<Rightarrow> nat" where
  "index_bits Legacy32 = 10"
| "index_bits m = 9"

definition slots :: "paging_mode \<Rightarrow> nat" where
  "slots m = 2 ^ index_bits m"

fun long_mode :: "paging_mode \<Rightarrow> bool" where
  "long_mode Long4Level = True"
| "long_mode Long5Level = True"
| "long_mode m = False"

record pte =
  physicalAddress :: nat
  present :: bool
  writable :: bool
  userAccessible :: bool
  pageSize :: bool
  noExecute :: bool
  rawValue :: nat

datatype pt_node = Unreadable nat | Table nat "pt_slot list"
  and pt_slot = Terminal nat pte | Pointer nat pte pt_node

text \<open>
  The mapping tree (PageTableNode): a table page with its present slots in index order,
  or a page that could not be read.
\<close>

primrec build_node :: "(nat \<Rightarrow> pte list option) \<Rightarrow> paging_mode \<Rightarrow> nat \<Rightarrow> nat \<Rightarrow> pt_node" where
  "build_node mem m 0 base = Table base []"
| "build_node mem m (Suc r) base =
     (case mem base of
        None \<Rightarrow> Unreadable base
      | Some es \<Rightarrow>
          Table base
            (map (\<lambda>(i, e).
                    if pageSize e \<or> r = 0 then Terminal i e
                    else Pointer i e (build_node mem m r (physicalAddress e)))
                 (filter (\<lambda>(i, e). present e) (enumerate 0 (take (slots m) es)))))"

text \<open>The depth of the recursion that builds a node: the nesting of table reads.\<close>

fun height :: "pt_node \<Rightarrow> nat" and slot_height :: "pt_slot \<Rightarrow> nat" where
  "height (Unreadable a) = 1"
| "height (Table a ss) = Suc (foldr max (map slot_height ss) 0)"
| "slot_height (Terminal i e) = 0"
| "slot_height (Pointer i e n) = height n"

definition entry_span :: "paging_mode \<Rightarrow> nat \<Rightarrow> nat" where
  "entry_span m r = 2 ^ (12 + index_bits m * (r - 1))"

definition va_width :: "paging_mode \<Rightarrow> nat" where
  "va_width m = 12 + index_bits m * levels m"

text \<open>
  Canonical sign extension, in the two 64-bit modes: the bits above the implemented width
  repeat its top bit.
\<close>

definition canonical :: "paging_mode \<Rightarrow> nat \<Rightarrow> nat" where
  "canonical m v =
     (if long_mode m \<and> 2 ^ (va_width m - 1) \<le> v then v + (2 ^ 64 - 2 ^ va_width m) else v)"

record mapping_record =
  virtualAddress :: nat
  mappedAddress :: nat
  pageBytes :: nat
  permissions :: "bool \<times> bool \<times> bool"

datatype walk_item = MappingRecord mapping_record | PageReadError nat

text \<open>
  The output sequence: depth-first, slots in ascending index order; a page that could not
  be read is an error entry in place of its subtree.
\<close>

fun records :: "paging_mode \<Rightarrow> nat \<Rightarrow> nat \<Rightarrow> pt_node \<Rightarrow> walk_item list"
  and slot_records :: "paging_mode \<Rightarrow> nat \<Rightarrow> nat \<Rightarrow> pt_slot \<Rightarrow> walk_item list" where
  "records m r va (Unreadable a) = [PageReadError a]"
| "records m r va (Table a ss) = concat (map (slot_records m r va) ss)"
| "slot_records m r va (Terminal i e) =
     [MappingRecord \<lparr> virtualAddress = canonical m (va + i * entry_span m r),
                mappedAddress = physicalAddress e - physicalAddress e mod entry_span m r,
                pageBytes = entry_span m r,
                permissions = (writable e, userAccessible e, noExecute e) \<rparr>]"
| "slot_records m r va (Pointer i e n) = records m (r - 1) (va + i * entry_span m r) n"

definition walk :: "(nat \<Rightarrow> pte list option) \<Rightarrow> nat \<Rightarrow> paging_mode \<Rightarrow> walk_item list" where
  "walk mem physicalBase m = records m (levels m) 0 (build_node mem m (levels m) physicalBase)"

fun mappings :: "walk_item list \<Rightarrow> mapping_record list" where
  "mappings [] = []"
| "mappings (MappingRecord r # xs) = r # mappings xs"
| "mappings (PageReadError a # xs) = mappings xs"

text \<open>Two memories to walk: one whose only table points back at itself, and a small hierarchy.\<close>

definition absent_entry :: pte where
  "absent_entry = \<lparr> physicalAddress = 0, present = False, writable = False,
     userAccessible = False, pageSize = False, noExecute = False, rawValue = 0 \<rparr>"

definition pointer_to :: "nat \<Rightarrow> pte" where
  "pointer_to a = \<lparr> physicalAddress = a, present = True, writable = True,
     userAccessible = False, pageSize = False, noExecute = False, rawValue = a + 3 \<rparr>"

definition page_at :: "nat \<Rightarrow> pte" where
  "page_at a = \<lparr> physicalAddress = a, present = True, writable = True,
     userAccessible = False, pageSize = True, noExecute = False, rawValue = a + 131 \<rparr>"

definition self_referential :: "nat \<Rightarrow> pte list option" where
  "self_referential a = Some [pointer_to 0x1000, absent_entry, pointer_to a]"

definition sample_memory :: "nat \<Rightarrow> pte list option" where
  "sample_memory a =
     (if a = 0x1000 then
        Some (replicate 3 absent_entry @ [pointer_to 0x2000] @ replicate 252 absent_entry
              @ [page_at 0])
      else if a = 0x2000 then Some (replicate 7 absent_entry @ [pointer_to 0x3000])
      else if a = 0x3000 then Some [page_at 0x40200000, pointer_to 0x5000, pointer_to 0x6000]
      else if a = 0x5000 then Some [pointer_to 0x7000, absent_entry, pointer_to 0x9000]
      else None)"

text \<open>
  The invariant of the walk below one table: the records of a subtree are the canonical
  forms of addresses that ascend strictly within the window the subtree covers.
\<close>

definition in_window :: "paging_mode \<Rightarrow> nat \<Rightarrow> nat \<Rightarrow> mapping_record list \<Rightarrow> bool" where
  "in_window m lo hi rs \<longleftrightarrow>
     (\<exists>vs. map virtualAddress rs = map (canonical m) vs \<and> sorted_wrt (<) vs \<and>
           (\<forall>v\<in>set vs. lo \<le> v \<and> v < hi))"

subsection \<open>The register access facade\<close>

text \<open>
  Modelled from the spec: the register access facade behind \<^verbatim>\<open>read_cr\<close> and
  \<^verbatim>\<open>write_cr\<close> (specification, sections 2, 4.1 and 7), and under it a privileged
  access channel of the kind section 9 asks the design to admit: a fake that answers from a
  register file. The channel keeps the list of the requests it has received, so that a call
  that reaches it leaves a mark; it refuses every request when it cannot be reached and the
  requests for a thread that does not respond. The facade accepts a thread index in
  \<open>[0, threadCount)\<close> and a register number among 0, 2, 3, 4 and 8, forwards what it
  accepts and performs no readback. Values are 64-bit words.
\<close>

datatype hal_error =
    InvalidArgument
  | ChannelUnavailable
  | ThreadUnavailable nat
  | PageReadFailure
  | TopologyUnavailable

datatype channel_request = ReadCR nat nat | WriteCR nat nat "64 word"

record channel =
  reachable :: bool
  responding :: "nat \<Rightarrow> bool"
  registers :: "nat \<times> nat \<Rightarrow> 64 word"
  requests :: "channel_request list"

definition channel_read ::
  "nat \<Rightarrow> nat \<Rightarrow> channel \<Rightarrow> (hal_error + 64 word) \<times> channel" where
  "channel_read t c ch =
     (let ch' = ch\<lparr>requests := requests ch @ [ReadCR t c]\<rparr> in
      if \<not> reachable ch then (Inl ChannelUnavailable, ch')
      else if \<not> responding ch t then (Inl (ThreadUnavailable t), ch')
      else (Inr (registers ch (t, c)), ch'))"

definition channel_write ::
  "nat \<Rightarrow> nat \<Rightarrow> 64 word \<Rightarrow> channel \<Rightarrow> (hal_error + unit) \<times> channel" where
  "channel_write t c v ch =
     (let ch' = ch\<lparr>requests := requests ch @ [WriteCR t c v]\<rparr> in
      if \<not> reachable ch then (Inl ChannelUnavailable, ch')
      else if \<not> responding ch t then (Inl (ThreadUnavailable t), ch')
      else (Inr (), ch'\<lparr>registers := (registers ch)((t, c) := v)\<rparr>))"

definition valid_target :: "nat \<Rightarrow> int \<Rightarrow> int \<Rightarrow> bool" where
  "valid_target threadCount thread crNumber \<longleftrightarrow>
     0 \<le> thread \<and> thread < int threadCount \<and> crNumber \<in> {0, 2, 3, 4, 8}"

definition readControlRegister ::
  "nat \<Rightarrow> int \<Rightarrow> int \<Rightarrow> channel \<Rightarrow> (hal_error + 64 word) \<times> channel" where
  "readControlRegister threadCount thread crNumber ch =
     (if valid_target threadCount thread crNumber
      then channel_read (nat thread) (nat crNumber) ch
      else (Inl InvalidArgument, ch))"

definition writeControlRegister ::
  "nat \<Rightarrow> int \<Rightarrow> int \<Rightarrow> 64 word \<Rightarrow> channel \<Rightarrow> (hal_error + unit) \<times> channel" where
  "writeControlRegister threadCount thread crNumber v ch =
     (if valid_target threadCount thread crNumber
      then channel_write (nat thread) (nat crNumber) v ch
      else (Inl InvalidArgument, ch))"

fun error_name :: "hal_error \<Rightarrow> string" where
  "error_name InvalidArgument = ''InvalidArgument''"
| "error_name ChannelUnavailable = ''ChannelUnavailable''"
| "error_name (ThreadUnavailable t) = ''ThreadUnavailable''"
| "error_name PageReadFailure = ''PageReadFailure''"
| "error_name TopologyUnavailable = ''TopologyUnavailable''"

definition raised :: "(hal_error + 'a) \<times> channel \<Rightarrow> ('a \<Rightarrow> 'b) \<Rightarrow> (exn + 'b) \<times> channel" where
  "raised out f =
     (case out of (Inl e, ch) \<Rightarrow> (Inl (OtherException (error_name e)), ch)
                | (Inr x, ch) \<Rightarrow> (Inr (f x), ch))"

text \<open>
  Modelled from the spec: the facade in the place of the layer the command calls. An error of
  the facade reaches the command as an exception that carries the name of the error; the
  operations of the layer that the facade does not provide are left out.
\<close>

definition facade_hal :: "nat \<Rightarrow> channel hal" where
  "facade_hal n =
     \<lparr> CPU = (\<lambda>ch. (Inr (), ch)),
       is_HT_active = (\<lambda>ch. (Inl (OtherException ''not modelled''), ch)),
       get_number_logical_processor_per_core = (\<lambda>ch. (Inl (OtherException ''not modelled''), ch)),
       get_number_logical_processor_per_package = (\<lambda>ch. (Inl (OtherException ''not modelled''), ch)),
       get_number_physical_processor_per_package = (\<lambda>ch. (Inl (OtherException ''not modelled''), ch)),
       get_number_threads_from_APIC_table = (\<lambda>ch. (Inl (OtherException ''not modelled''), ch)),
       get_number_sockets_from_APIC_table = (\<lambda>ch. (Inl (OtherException ''not modelled''), ch)),
       get_threads_count = (\<lambda>ch. (Inr (int n), ch)),
       get_cpu_topology = (\<lambda>ch. (Inl (OtherException ''not modelled''), ch)),
       get_cpu_thread_count = (\<lambda>ch. (Inr (int n), ch)),
       read_cr = (\<lambda>t c ch. raised (readControlRegister n t c ch) uint),
       read_cr_None = (\<lambda>c ch. (Inl (OtherException ''InvalidArgument''), ch)),
       write_cr = (\<lambda>t c v ch.
         if 0 \<le> v \<and> v < 2 ^ 64
         then raised (writeControlRegister n t c (word_of_int v) ch) (\<lambda>u. u)
         else (Inl (OtherException ''InvalidArgument''), ch)),
       cpuid = (\<lambda>a c ch. (Inl (OtherException ''not modelled''), ch)),
       dump_page_tables = (\<lambda>b f ch. (Inl (OtherException ''not modelled''), ch)),
       time = (\<lambda>ch. 0),
       fmt_3f = (\<lambda>x. ''0.000'') \<rparr>"

definition idle_channel :: channel where
  "idle_channel = \<lparr> reachable = True, responding = (\<lambda>t. True),
                     registers = (\<lambda>k. 0), requests = [] \<rparr>"

section \<open>Properties\<close>

subsection \<open>Evaluation and sequencing\<close>

lemma replicate_numeral_unfold: "replicate (numeral k) x = x # replicate (pred_numeral k) x"
  by (simp add: numeral_eq_Suc)

lemmas cmd_defs = bind_cmd_def return_cmd_def raise_cmd_def logger_log_def invoke_def

lemmas fmt_defs = py_fmt_d_def py_fmt_X_def zero_pad_def digit_char_def digits_of.simps
  replicate_numeral_unfold quoted_def

lemma py_range_2: "py_range 2 = [0, 1]"
  by (simp add: py_range_def upt_rec)

lemma py_range_3: "py_range 3 = [0, 1, 2]"
  by (simp add: py_range_def upt_rec)

lemma py_range_Suc: "0 \<le> k \<Longrightarrow> py_range (k + 1) = py_range k @ [k]"
  by (simp add: py_range_def nat_add_distrib)

lemma length_py_range: "length (py_range n) = nat n"
  by (simp add: py_range_def)

lemma py_range_nat: "py_range (int (nat n)) = py_range n"
  by (simp add: py_range_def)

lemma for_each_snoc:
  "for_each (xs @ [x]) body w =
     (case for_each xs body w of (Inl e, w') \<Rightarrow> (Inl e, w') | (Inr _, w') \<Rightarrow> body x w')"
  by (induction xs arbitrary: w) (auto split: prod.splits sum.splits)

subsection \<open>The enumeration of the control registers\<close>

lemma cr_thread_body_ok:
  assumes "cr_thread_body h tid w = (Inr u, w')"
  shows "\<exists>regs. log w' = log w @ cr_lines tid regs \<and> trace w' = trace w @ cr_reads tid regs"
  using assms
  by (auto simp: cr_thread_body_def cmd_defs cr_lines_def cr_reads_def
      split: prod.splits sum.splits)

lemma cr_thread_body_fail:
  assumes "cr_thread_body h tid w = (Inl e, w')"
  shows "log w' = log w \<and>
         (\<exists>evs. trace w' = trace w @ evs \<and> evs \<noteq> [] \<and>
                (\<forall>ev\<in>set evs. \<exists>m. fst ev = Call_read_cr tid m) \<and> snd (last evs) = Inl e)"
  using assms
  by (auto simp: cr_thread_body_def cmd_defs split: prod.splits sum.splits)

lemma cr_loop_outcome:
  "(case for_each (py_range (int j)) (cr_thread_body h) w of
      (Inr _, w') \<Rightarrow> cr_completed w (int j) w'
    | (Inl e, w') \<Rightarrow> cr_aborted w (int j) e w')"
proof (induction j)
  case 0
  show ?case by (simp add: cr_completed_def py_range_def)
next
  case (Suc j)
  let ?k = "int j"
  obtain r1 w1 where pre: "for_each (py_range ?k) (cr_thread_body h) w = (r1, w1)"
    by (cases "for_each (py_range ?k) (cr_thread_body h) w")
  have sj: "int (Suc j) = 1 + ?k" by simp
  have step: "for_each (py_range (1 + ?k)) (cr_thread_body h) w =
      (case r1 of Inl e \<Rightarrow> (Inl e, w1) | Inr _ \<Rightarrow> cr_thread_body h ?k w1)"
    using py_range_Suc [of ?k] by (simp add: for_each_snoc add.commute pre split: sum.splits)
  show ?case
  proof (cases r1)
    case (Inl e)
    with Suc.IH pre have "cr_aborted w ?k e w1" by simp
    then obtain k rs evs where a: "0 \<le> k" "k < ?k" "length rs = nat k"
      "log w1 = log w @ concat (map2 cr_lines (py_range k) rs)"
      "trace w1 = trace w @ concat (map2 cr_reads (py_range k) rs) @ evs"
      "evs \<noteq> []" "\<forall>ev\<in>set evs. \<exists>m. fst ev = Call_read_cr k m" "snd (last evs) = Inl e"
      unfolding cr_aborted_def by blast
    have "cr_aborted w (1 + ?k) e w1"
      unfolding cr_aborted_def
      apply (rule exI [of _ k], rule exI [of _ rs], rule exI [of _ evs])
      using a by simp
    then show ?thesis unfolding sj step by (simp add: Inl)
  next
    case (Inr u)
    with Suc.IH pre have "cr_completed w ?k w1" by simp
    then obtain rs where c: "length rs = j"
      "log w1 = log w @ concat (map2 cr_lines (py_range ?k) rs)"
      "trace w1 = trace w @ concat (map2 cr_reads (py_range ?k) rs)"
      unfolding cr_completed_def by auto
    obtain r2 w2 where b: "cr_thread_body h ?k w1 = (r2, w2)" by (cases "cr_thread_body h ?k w1")
    have len: "length (py_range ?k) = length rs" by (simp add: length_py_range c(1))
    show ?thesis
    proof (cases r2)
      case r2: (Inr u2)
      from cr_thread_body_ok [OF b [unfolded r2]] obtain regs where
        r: "log w2 = log w1 @ cr_lines ?k regs" "trace w2 = trace w1 @ cr_reads ?k regs" by blast
      have "cr_completed w (1 + ?k) w2"
        unfolding cr_completed_def
        apply (rule exI [of _ "rs @ [regs]"])
        using c r len py_range_Suc [of ?k] by (simp add: add.commute)
      then show ?thesis unfolding sj step by (simp add: Inr b r2)
    next
      case r2: (Inl e)
      from cr_thread_body_fail [OF b [unfolded r2]] obtain evs where
        f: "log w2 = log w1" "trace w2 = trace w1 @ evs" "evs \<noteq> []"
          "\<forall>ev\<in>set evs. \<exists>m. fst ev = Call_read_cr ?k m" "snd (last evs) = Inl e" by blast
      have "cr_aborted w (1 + ?k) e w2"
        unfolding cr_aborted_def
        apply (rule exI [of _ ?k], rule exI [of _ rs], rule exI [of _ evs])
        using c f by simp
      then show ?thesis unfolding sj step by (simp add: Inr b r2)
    qed
  qed
qed

lemma cr_completed_nat: "cr_completed w (int (nat n)) w' \<Longrightarrow> cr_completed w n w'"
  by (cases "0 \<le> n") (auto simp: cr_completed_def py_range_def)

lemma cr_aborted_nat: "cr_aborted w (int (nat n)) e w' \<Longrightarrow> cr_aborted w n e w'"
  by (cases "0 \<le> n") (auto simp: cr_aborted_def)

text \<open>
  Claim C1, as the code has it. The enumeration (\<^verbatim>\<open>cpu_cr\<close> with neither a register
  number nor a value) has no error handling. Once the thread count \<open>n\<close> is known, it ends in
  one of two ways: every read of every thread succeeded, and it returns \<^verbatim>\<open>None\<close> with
  a block logged for each thread; or a read of some thread \<open>k\<close> raised, and then that
  exception leaves \<^verbatim>\<open>cpu_cr\<close>, the blocks of the threads below \<open>k\<close> are the only ones
  logged (thread \<open>k\<close> itself logs nothing), and the failed read is the last call made: no
  thread after \<open>k\<close> is read.
\<close>

theorem cpu_cr_enumeration_stops_at_first_failure:
  assumes "self_value a = None" and "self_cr_number a = None"
    and "invoke Call_get_cpu_thread_count PyInt (get_cpu_thread_count h) w = (Inr n, w0)"
  shows "(\<exists>w'. cpu_cr h a w = (Inr PyNone, w') \<and> cr_completed w0 n w') \<or>
         (\<exists>e w'. cpu_cr h a w = (Inl e, w') \<and> cr_aborted w0 n e w')"
proof -
  obtain r1 w1 where l: "for_each (py_range n) (cr_thread_body h) w0 = (r1, w1)"
    by (cases "for_each (py_range n) (cr_thread_body h) w0")
  have out: "cpu_cr h a w = (case r1 of Inl e \<Rightarrow> (Inl e, w1) | Inr _ \<Rightarrow> (Inr PyNone, w1))"
    using assms l by (simp add: cpu_cr_def bind_cmd_def return_cmd_def split: sum.splits)
  have k: "(case r1 of Inr _ \<Rightarrow> cr_completed w0 (int (nat n)) w1
                     | Inl e \<Rightarrow> cr_aborted w0 (int (nat n)) e w1)"
    using cr_loop_outcome [where j = "nat n" and h = h and w = w0]
    by (simp only: py_range_nat l prod.case)
  show ?thesis
  proof (cases r1)
    case (Inl e)
    with k have "cr_aborted w0 (int (nat n)) e w1" by (simp only: sum.case)
    then have "cr_aborted w0 n e w1" by (rule cr_aborted_nat)
    with out Inl show ?thesis by simp
  next
    case (Inr u)
    with k have "cr_completed w0 (int (nat n)) w1" by (simp only: sum.case)
    then have "cr_completed w0 n w1" by (rule cr_completed_nat)
    with out Inr show ?thesis by simp
  qed
qed

text \<open>
  The claim as stated fails. Three threads, of which thread 1 does not respond: the
  enumeration raises at the first read of thread 1, after the block of thread 0; thread 2,
  whose registers can be read, is never read and nothing is logged for it.
\<close>

theorem cpu_cr_enumeration_not_tolerant_counterexample:
  "cpu_cr (fake_hal 3 [1]) (cmdline Cmd_cr None None None None) (boot sample) =
     (Inl (OtherException ''thread unavailable''),
      \<lparr> hw = sample,
        log = [''[CHIPSEC][cpu0] x86 Control Registers:'',
               ''  CR0: 0x0000000000000000'',
               ''  CR2: 0x0000000000000000'',
               ''  CR3: 0x0000000012345000'',
               ''  CR4: 0x0000000000000000'',
               ''  CR8: 0x0000000000000000''],
        stdout = [],
        trace = [(Call_get_cpu_thread_count, Inr (PyInt 3)),
                 (Call_read_cr 0 0, Inr (PyInt 0)),
                 (Call_read_cr 0 2, Inr (PyInt 0)),
                 (Call_read_cr 0 3, Inr (PyInt 0x12345000)),
                 (Call_read_cr 0 4, Inr (PyInt 0)),
                 (Call_read_cr 0 8, Inr (PyInt 0)),
                 (Call_read_cr 1 0, Inl (OtherException ''thread unavailable''))] \<rparr>)
   \<and> read_cr (fake_hal 3 [1]) 2 3 sample = (Inr 0x7654F000, sample)"
  by (simp add: cpu_cr_def cr_thread_body_def fake_hal_def cmdline_def boot_def sample_def
      cmd_defs fmt_defs py_range_3)

theorem cpu_cr_enumeration_stops_at_first_failure_witness:
  "self_value (cmdline Cmd_cr None None None None) = None \<and>
   self_cr_number (cmdline Cmd_cr None None None None) = None \<and>
   invoke Call_get_cpu_thread_count PyInt (get_cpu_thread_count (fake_hal 3 [1])) (boot sample) =
     (Inr 3, \<lparr> hw = sample, log = [], stdout = [],
               trace = [(Call_get_cpu_thread_count, Inr (PyInt 3))] \<rparr>) \<and>
   ((\<exists>w'. cpu_cr (fake_hal 3 [1]) (cmdline Cmd_cr None None None None) (boot sample)
            = (Inr PyNone, w') \<and>
          cr_completed \<lparr> hw = sample, log = [], stdout = [],
               trace = [(Call_get_cpu_thread_count, Inr (PyInt 3))] \<rparr> 3 w') \<or>
    (\<exists>e w'. cpu_cr (fake_hal 3 [1]) (cmdline Cmd_cr None None None None) (boot sample)
            = (Inl e, w') \<and>
          cr_aborted \<lparr> hw = sample, log = [], stdout = [],
               trace = [(Call_get_cpu_thread_count, Inr (PyInt 3))] \<rparr> 3 e w'))"
proof -
  let ?a = "cmdline Cmd_cr None None None None"
  have h1: "self_value ?a = None" by (simp add: cmdline_def)
  have h2: "self_cr_number ?a = None" by (simp add: cmdline_def)
  have h3: "invoke Call_get_cpu_thread_count PyInt (get_cpu_thread_count (fake_hal 3 [1]))
      (boot sample) =
     (Inr 3, \<lparr> hw = sample, log = [], stdout = [],
               trace = [(Call_get_cpu_thread_count, Inr (PyInt 3))] \<rparr>)"
    by (simp add: invoke_def fake_hal_def boot_def)
  from cpu_cr_enumeration_stops_at_first_failure [OF h1 h2 h3] h1 h2 h3
  show ?thesis by (intro conjI)
qed

subsection \<open>The page-table dump\<close>

lemma pt_thread_body_outcome:
  "pt_thread_body h tid w =
     (case read_cr h tid 3 (hw w) of
        (Inl e, s1) \<Rightarrow>
          (Inl e, w\<lparr>hw := s1, trace := trace w @ [(Call_read_cr tid 3, Inl e)]\<rparr>)
      | (Inr v, s1) \<Rightarrow>
          (case dump_page_tables h v (pt_fname tid v) s1 of
             (r, s2) \<Rightarrow>
               (r, w\<lparr>hw := s2, log := log w @ pt_lines tid v,
                      trace := trace w @ [(Call_read_cr tid 3, Inr (PyInt v)),
                        (Call_dump_page_tables v (pt_fname tid v),
                         map_sum id (\<lambda>_. PyNone) r)]\<rparr>)))"
  by (simp add: pt_thread_body_def cmd_defs Let_def pt_fname_def pt_lines_def
      split: prod.splits sum.splits)

lemma pt_loop_outcome:
  "(case for_each tids (pt_thread_body h) w of
      (Inr u, w') \<Rightarrow> pt_completed h w tids w'
    | (Inl e, w') \<Rightarrow> pt_aborted h w tids e w')"
proof (induction tids arbitrary: w)
  case Nil
  show ?case by (simp add: pt_completed_def)
next
  case (Cons t ts)
  obtain r1 s1 where rd: "read_cr h t 3 (hw w) = (r1, s1)" by (cases "read_cr h t 3 (hw w)")
  show ?case
  proof (cases r1)
    case (Inl e)
    have "pt_aborted h w (t # ts) e
            (w\<lparr>hw := s1, trace := trace w @ [(Call_read_cr t 3, Inl e)]\<rparr>)"
      unfolding pt_aborted_def
      apply (rule exI [of _ "[]"], rule exI [of _ t], rule exI [of _ ts], rule exI [of _ "[]"],
          rule exI [of _ "hw w"], rule exI [of _ "[]"],
          rule exI [of _ "[(Call_read_cr t 3, Inl e)]"], rule exI [of _ s1])
      by (simp add: pt_failed_def rd Inl)
    then show ?thesis by (simp add: pt_thread_body_outcome rd Inl)
  next
    case (Inr v)
    obtain r2 s2 where dp: "dump_page_tables h v (pt_fname t v) s1 = (r2, s2)"
      by (cases "dump_page_tables h v (pt_fname t v) s1")
    show ?thesis
    proof (cases r2)
      case r2: (Inl e)
      have "pt_aborted h w (t # ts) e
              (w\<lparr>hw := s2, log := log w @ pt_lines t v,
                  trace := trace w @ [(Call_read_cr t 3, Inr (PyInt v)),
                        (Call_dump_page_tables v (pt_fname t v), Inl e)]\<rparr>)"
        unfolding pt_aborted_def
        apply (rule exI [of _ "[]"], rule exI [of _ t], rule exI [of _ ts], rule exI [of _ "[]"],
            rule exI [of _ "hw w"], rule exI [of _ "pt_lines t v"],
            rule exI [of _ "[(Call_read_cr t 3, Inr (PyInt v)),
                        (Call_dump_page_tables v (pt_fname t v), Inl e)]"], rule exI [of _ s2])
        by (simp add: pt_failed_def rd Inr dp r2)
      then show ?thesis by (simp add: pt_thread_body_outcome rd Inr dp r2)
    next
      case r2: (Inr u)
      define w1 where "w1 = w\<lparr>hw := s2, log := log w @ pt_lines t v,
                  trace := trace w @ pt_events t v\<rparr>"
      have body: "pt_thread_body h t w = (Inr u, w1)"
        by (simp add: pt_thread_body_outcome rd Inr dp r2 w1_def pt_events_def)
      obtain r3 w3 where rest: "for_each ts (pt_thread_body h) w1 = (r3, w3)"
        by (cases "for_each ts (pt_thread_body h) w1")
      have whole: "for_each (t # ts) (pt_thread_body h) w = (r3, w3)"
        by (simp add: body rest)
      show ?thesis
      proof (cases r3)
        case r3: (Inr u3)
        with Cons.IH [of w1] rest have "pt_completed h w1 ts w3" by simp
        then obtain vs s where c: "length vs = length ts"
          "pt_chain h (zip ts vs) (hw w1) = Some s"
          "w3 = w1\<lparr>hw := s, log := log w1 @ concat (map2 pt_lines ts vs),
                   trace := trace w1 @ concat (map2 pt_events ts vs)\<rparr>"
          unfolding pt_completed_def by blast
        have "pt_completed h w (t # ts) w3"
          unfolding pt_completed_def
          apply (rule exI [of _ "v # vs"], rule exI [of _ s])
          using c by (simp add: rd Inr dp r2 w1_def)
        then show ?thesis by (simp only: whole r3 prod.case sum.case)
      next
        case r3: (Inl e)
        with Cons.IH [of w1] rest have "pt_aborted h w1 ts e w3" by simp
        then obtain before tid rest' vs s lines evs s' where a:
          "ts = before @ tid # rest'" "length vs = length before"
          "pt_chain h (zip before vs) (hw w1) = Some s"
          "pt_failed h tid s = Some (e, lines, evs, s')"
          "w3 = w1\<lparr>hw := s', log := log w1 @ concat (map2 pt_lines before vs) @ lines,
                   trace := trace w1 @ concat (map2 pt_events before vs) @ evs\<rparr>"
          unfolding pt_aborted_def by blast
        have "pt_aborted h w (t # ts) e w3"
          unfolding pt_aborted_def
          apply (rule exI [of _ "t # before"], rule exI [of _ tid], rule exI [of _ rest'],
              rule exI [of _ "v # vs"], rule exI [of _ s], rule exI [of _ lines],
              rule exI [of _ evs], rule exI [of _ s'])
          using a by (simp add: rd Inr dp r2 w1_def)
        then show ?thesis by (simp only: whole r3 prod.case sum.case)
      qed
    qed
  qed
qed

text \<open>
  Claim C4, as the code has it. \<^verbatim>\<open>cpu_pt\<close> dispatches on the base. With a base \<open>b\<close> it
  logs two lines and applies \<^verbatim>\<open>dump_page_tables\<close> of the layer once, to \<open>b\<close> and the
  file \<^verbatim>\<open>pt_<b>\<close>, on the state it was started in; what the call returns or raises is
  what \<^verbatim>\<open>cpu_pt\<close> returns or raises. Without a base, once the thread count \<open>n\<close> is
  known, the loop over the thread ids \<open>0, ..., n - 1\<close> ends in one of two ways. Either every
  call succeeded: each thread in turn had its CR3 read and the hierarchy at the value read
  dumped, one dump for each thread, on the state the call before left, and
  \<^verbatim>\<open>cpu_pt\<close> returns \<^verbatim>\<open>None\<close>. Or the read or the dump of some thread raised: that
  exception leaves \<^verbatim>\<open>cpu_pt\<close>, the threads before it were read and dumped, and no
  thread after it is read or dumped.
\<close>

theorem cpu_pt_outcomes:
  "(self_cr3 a = Some b \<longrightarrow>
      cpu_pt h a w =
        (case dump_page_tables h b (''pt_'' @ py_fmt_X 8 b) (hw w) of
           (r, s') \<Rightarrow>
             (map_sum id (\<lambda>_. PyNone) r,
              w\<lparr>hw := s',
                log := log w @
                  [''[CHIPSEC] paging physical base (CR3): 0x'' @ py_fmt_X 16 b,
                   ''[CHIPSEC] dumping paging hierarchy to ''
                     @ quoted (''pt_'' @ py_fmt_X 8 b) @ ''...''],
                trace := trace w @
                  [(Call_dump_page_tables b (''pt_'' @ py_fmt_X 8 b),
                    map_sum id (\<lambda>_. PyNone) r)]\<rparr>)))
   \<and> (self_cr3 a = None \<longrightarrow>
        invoke Call_get_cpu_thread_count PyInt (get_cpu_thread_count h) w = (Inr n, w0) \<longrightarrow>
          (\<exists>w'. cpu_pt h a w = (Inr PyNone, w') \<and> pt_completed h w0 (py_range n) w') \<or>
          (\<exists>e w'. cpu_pt h a w = (Inl e, w') \<and> pt_aborted h w0 (py_range n) e w'))"
proof (intro conjI impI)
  assume "self_cr3 a = Some b"
  then show "cpu_pt h a w =
        (case dump_page_tables h b (''pt_'' @ py_fmt_X 8 b) (hw w) of
           (r, s') \<Rightarrow>
             (map_sum id (\<lambda>_. PyNone) r,
              w\<lparr>hw := s',
                log := log w @
                  [''[CHIPSEC] paging physical base (CR3): 0x'' @ py_fmt_X 16 b,
                   ''[CHIPSEC] dumping paging hierarchy to ''
                     @ quoted (''pt_'' @ py_fmt_X 8 b) @ ''...''],
                trace := trace w @
                  [(Call_dump_page_tables b (''pt_'' @ py_fmt_X 8 b),
                    map_sum id (\<lambda>_. PyNone) r)]\<rparr>))"
    by (simp add: cpu_pt_def cmd_defs Let_def split: prod.splits sum.splits)
next
  assume none: "self_cr3 a = None"
    and cnt: "invoke Call_get_cpu_thread_count PyInt (get_cpu_thread_count h) w = (Inr n, w0)"
  obtain r1 w1 where l: "for_each (py_range n) (pt_thread_body h) w0 = (r1, w1)"
    by (cases "for_each (py_range n) (pt_thread_body h) w0")
  have out: "cpu_pt h a w = (case r1 of Inl e \<Rightarrow> (Inl e, w1) | Inr _ \<Rightarrow> (Inr PyNone, w1))"
    using none cnt l by (simp add: cpu_pt_def bind_cmd_def return_cmd_def split: sum.splits)
  have k: "(case r1 of Inr _ \<Rightarrow> pt_completed h w0 (py_range n) w1
                     | Inl e \<Rightarrow> pt_aborted h w0 (py_range n) e w1)"
    using pt_loop_outcome [where tids = "py_range n" and h = h and w = w0] by (simp only: l prod.case)
  show "(\<exists>w'. cpu_pt h a w = (Inr PyNone, w') \<and> pt_completed h w0 (py_range n) w') \<or>
        (\<exists>e w'. cpu_pt h a w = (Inl e, w') \<and> pt_aborted h w0 (py_range n) e w')"
    using out k by (cases r1) simp_all
qed

text \<open>
  The claim as stated fails for the loop. Three threads, of which thread 1 does not respond:
  \<^verbatim>\<open>cpu_pt\<close> raises at the read of CR3 of thread 1, after the dump of thread 0; thread
  2, whose CR3 can be read and whose hierarchy can be dumped, is neither read nor dumped.
\<close>

theorem cpu_pt_stops_at_first_failure_counterexample:
  "cpu_pt (fake_hal 3 [1]) (cmdline Cmd_pt None None None None) (boot sample) =
     (Inl (OtherException ''thread unavailable''),
      \<lparr> hw = sample,
        log = [''[CHIPSEC][cpu0] paging physical base (CR3): 0x0000000012345000'',
               ''[CHIPSEC][cpu0] dumping paging hierarchy to '' @ quoted ''cpu0_pt_12345000''
                 @ ''...''],
        stdout = [],
        trace = [(Call_get_cpu_thread_count, Inr (PyInt 3)),
                 (Call_read_cr 0 3, Inr (PyInt 0x12345000)),
                 (Call_dump_page_tables 0x12345000 ''cpu0_pt_12345000'', Inr PyNone),
                 (Call_read_cr 1 3, Inl (OtherException ''thread unavailable''))] \<rparr>)
   \<and> read_cr (fake_hal 3 [1]) 2 3 sample = (Inr 0x7654F000, sample)
   \<and> dump_page_tables (fake_hal 3 [1]) 0x7654F000 ''cpu2_pt_7654F000'' sample
       = (Inr (), sample)"
  by (simp add: cpu_pt_def pt_thread_body_def fake_hal_def cmdline_def boot_def sample_def
      cmd_defs fmt_defs py_range_3)

theorem cpu_pt_outcomes_witness:
  "self_cr3 (cmdline Cmd_pt None None None (Some 0x12345000)) = Some 0x12345000 \<and>
   cpu_pt (fake_hal 2 []) (cmdline Cmd_pt None None None (Some 0x12345000)) (boot fresh) =
     (Inr PyNone,
      \<lparr> hw = fresh,
        log = [''[CHIPSEC] paging physical base (CR3): 0x0000000012345000'',
               ''[CHIPSEC] dumping paging hierarchy to '' @ quoted ''pt_12345000'' @ ''...''],
        stdout = [],
        trace = [(Call_dump_page_tables 0x12345000 ''pt_12345000'', Inr PyNone)] \<rparr>) \<and>
   self_cr3 (cmdline Cmd_pt None None None None) = None \<and>
   invoke Call_get_cpu_thread_count PyInt (get_cpu_thread_count (fake_hal 2 [])) (boot sample) =
     (Inr 2, \<lparr> hw = sample, log = [], stdout = [],
               trace = [(Call_get_cpu_thread_count, Inr (PyInt 2))] \<rparr>) \<and>
   ((\<exists>w'. cpu_pt (fake_hal 2 []) (cmdline Cmd_pt None None None None) (boot sample)
            = (Inr PyNone, w') \<and>
          pt_completed (fake_hal 2 [])
            \<lparr> hw = sample, log = [], stdout = [],
              trace = [(Call_get_cpu_thread_count, Inr (PyInt 2))] \<rparr> (py_range 2) w') \<or>
    (\<exists>e w'. cpu_pt (fake_hal 2 []) (cmdline Cmd_pt None None None None) (boot sample)
            = (Inl e, w') \<and>
          pt_aborted (fake_hal 2 [])
            \<lparr> hw = sample, log = [], stdout = [],
              trace = [(Call_get_cpu_thread_count, Inr (PyInt 2))] \<rparr> (py_range 2) e w')) \<and>
   cpu_pt (fake_hal 2 []) (cmdline Cmd_pt None None None None) (boot sample) =
     (Inr PyNone,
      \<lparr> hw = sample,
        log = [''[CHIPSEC][cpu0] paging physical base (CR3): 0x0000000012345000'',
               ''[CHIPSEC][cpu0] dumping paging hierarchy to '' @ quoted ''cpu0_pt_12345000''
                 @ ''...'',
               ''[CHIPSEC][cpu1] paging physical base (CR3): 0x00000001FFFF2000'',
               ''[CHIPSEC][cpu1] dumping paging hierarchy to '' @ quoted ''cpu1_pt_1FFFF2000''
                 @ ''...''],
        stdout = [],
        trace = [(Call_get_cpu_thread_count, Inr (PyInt 2)),
                 (Call_read_cr 0 3, Inr (PyInt 0x12345000)),
                 (Call_dump_page_tables 0x12345000 ''cpu0_pt_12345000'', Inr PyNone),
                 (Call_read_cr 1 3, Inr (PyInt 0x1FFFF2000)),
                 (Call_dump_page_tables 0x1FFFF2000 ''cpu1_pt_1FFFF2000'', Inr PyNone)] \<rparr>)"
proof -
  let ?a = "cmdline Cmd_pt None None None (Some 0x12345000)"
  let ?b = "cmdline Cmd_pt None None None None"
  let ?w0 = "\<lparr> hw = sample, log = [], stdout = [],
               trace = [(Call_get_cpu_thread_count, Inr (PyInt 2))] \<rparr>"
  have h1: "self_cr3 ?a = Some 0x12345000" by (simp add: cmdline_def)
  have h2: "self_cr3 ?b = None" by (simp add: cmdline_def)
  have h3: "invoke Call_get_cpu_thread_count PyInt (get_cpu_thread_count (fake_hal 2 []))
              (boot sample) = (Inr 2, ?w0)"
    by (simp add: invoke_def fake_hal_def boot_def)
  have "cpu_pt (fake_hal 2 []) ?a (boot fresh) =
        (case dump_page_tables (fake_hal 2 []) 0x12345000 (''pt_'' @ py_fmt_X 8 0x12345000)
                (hw (boot fresh)) of
           (r, s') \<Rightarrow>
             (map_sum id (\<lambda>_. PyNone) r,
              (boot fresh)\<lparr>hw := s',
                log := log (boot fresh) @
                  [''[CHIPSEC] paging physical base (CR3): 0x'' @ py_fmt_X 16 0x12345000,
                   ''[CHIPSEC] dumping paging hierarchy to ''
                     @ quoted (''pt_'' @ py_fmt_X 8 0x12345000) @ ''...''],
                trace := trace (boot fresh) @
                  [(Call_dump_page_tables 0x12345000 (''pt_'' @ py_fmt_X 8 0x12345000),
                    map_sum id (\<lambda>_. PyNone) r)]\<rparr>))"
    by (rule mp [OF conjunct1 [OF cpu_pt_outcomes
            [of ?a "0x12345000" "fake_hal 2 []" "boot fresh"]] h1])
  then have c1: "cpu_pt (fake_hal 2 []) ?a (boot fresh) =
     (Inr PyNone,
      \<lparr> hw = fresh,
        log = [''[CHIPSEC] paging physical base (CR3): 0x0000000012345000'',
               ''[CHIPSEC] dumping paging hierarchy to '' @ quoted ''pt_12345000'' @ ''...''],
        stdout = [],
        trace = [(Call_dump_page_tables 0x12345000 ''pt_12345000'', Inr PyNone)] \<rparr>)"
    by (simp add: fake_hal_def boot_def fmt_defs)
  have c2: "(\<exists>w'. cpu_pt (fake_hal 2 []) ?b (boot sample) = (Inr PyNone, w') \<and>
               pt_completed (fake_hal 2 []) ?w0 (py_range 2) w') \<or>
            (\<exists>e w'. cpu_pt (fake_hal 2 []) ?b (boot sample) = (Inl e, w') \<and>
               pt_aborted (fake_hal 2 []) ?w0 (py_range 2) e w')"
    by (rule mp [OF mp [OF conjunct2 [OF cpu_pt_outcomes
            [of ?b 0 "fake_hal 2 []" "boot sample" 2 ?w0]] h2] h3])
  have c3: "cpu_pt (fake_hal 2 []) ?b (boot sample) =
     (Inr PyNone,
      \<lparr> hw = sample,
        log = [''[CHIPSEC][cpu0] paging physical base (CR3): 0x0000000012345000'',
               ''[CHIPSEC][cpu0] dumping paging hierarchy to '' @ quoted ''cpu0_pt_12345000''
                 @ ''...'',
               ''[CHIPSEC][cpu1] paging physical base (CR3): 0x00000001FFFF2000'',
               ''[CHIPSEC][cpu1] dumping paging hierarchy to '' @ quoted ''cpu1_pt_1FFFF2000''
                 @ ''...''],
        stdout = [],
        trace = [(Call_get_cpu_thread_count, Inr (PyInt 2)),
                 (Call_read_cr 0 3, Inr (PyInt 0x12345000)),
                 (Call_dump_page_tables 0x12345000 ''cpu0_pt_12345000'', Inr PyNone),
                 (Call_read_cr 1 3, Inr (PyInt 0x1FFFF2000)),
                 (Call_dump_page_tables 0x1FFFF2000 ''cpu1_pt_1FFFF2000'', Inr PyNone)] \<rparr>)"
    by (simp add: cpu_pt_def pt_thread_body_def fake_hal_def cmdline_def boot_def sample_def
        cmd_defs fmt_defs py_range_2)
  from h1 c1 h2 h3 c2 c3 show ?thesis by (intro conjI)
qed

subsection \<open>Reading one control register\<close>

lemma hex_digit_value_digit_char: "d < 16 \<Longrightarrow> hex_digit_value (digit_char d) = d"
proof -
  assume "d < 16"
  then have "d = 0 \<or> d = 1 \<or> d = 2 \<or> d = 3 \<or> d = 4 \<or> d = 5 \<or> d = 6 \<or> d = 7
    \<or> d = 8 \<or> d = 9 \<or> d = 10 \<or> d = 11 \<or> d = 12 \<or> d = 13 \<or> d = 14 \<or> d = 15"
    by arith
  then show ?thesis
    by (elim disjE) (simp_all add: hex_digit_value_def digit_char_def)
qed

lemma hex_value_snoc: "hex_value (s @ [c]) = 16 * hex_value s + hex_digit_value c"
  by (simp add: hex_value_def)

lemma hex_value_digits_of: "hex_value (digits_of 16 n) = n"
proof (induction "16 :: nat" n rule: digits_of.induct)
  case (1 n)
  show ?case
  proof (cases "n < 16")
    case True
    then show ?thesis
      by (simp add: digits_of.simps [of 16 n] hex_value_def hex_digit_value_digit_char)
  next
    case False
    with 1 have "hex_value (digits_of 16 (n div 16)) = n div 16" by simp
    with False show ?thesis
      by (simp add: digits_of.simps [of 16 n] hex_value_snoc hex_digit_value_digit_char)
  qed
qed

lemma hex_value_zeros: "hex_value (replicate k (CHR ''0'') @ s) = hex_value s"
proof -
  have "foldl (\<lambda>acc c. 16 * acc + hex_digit_value c) 0 (replicate k (CHR ''0'')) = 0"
    by (induction k) (simp_all add: hex_digit_value_def)
  then show ?thesis by (simp add: hex_value_def)
qed

lemma hex_value_py_fmt_X: "0 \<le> v \<Longrightarrow> int (hex_value (py_fmt_X width v)) = v"
  by (simp add: py_fmt_X_def zero_pad_def hex_value_zeros hex_value_digits_of)

text \<open>
  Claim C8. A read through \<^verbatim>\<open>cpu_cr\<close> returns the value the layer returned, whole:
  \<^verbatim>\<open>08X\<close> and \<^verbatim>\<open>016X\<close> are minimum widths, so the text logged reads back as
  the same number, whatever its size. In the loop of \<^verbatim>\<open>cpu_pt\<close> the CR3 value read is
  passed on whole to \<^verbatim>\<open>dump_page_tables\<close> and rendered whole in the file name and in
  the log.
\<close>

theorem control_register_read_keeps_full_value:
  assumes "self_value a = None" and "self_cr_number a = Some n" and "self_thread a = Some t"
    and "read_cr h t n (hw w) = (Inr v, s)"
  shows "fst (cpu_cr h a w) = Inr (PyInt v) \<and>
         log (snd (cpu_cr h a w)) =
           log w @ [''[CHIPSEC] CPU'' @ py_fmt_d t @ '': read CR'' @ py_fmt_d n
                      @ '' -> 0x'' @ py_fmt_X 8 v] \<and>
         (0 \<le> v \<longrightarrow> int (hex_value (py_fmt_X 8 v)) = v \<and> int (hex_value (py_fmt_X 16 v)) = v) \<and>
         (\<forall>tid s'. read_cr h tid 3 (hw w) = (Inr v, s') \<longrightarrow>
            (\<exists>r. trace (snd (pt_thread_body h tid w)) =
                    trace w @ [(Call_read_cr tid 3, Inr (PyInt v)),
                               (Call_dump_page_tables v
                                  (''cpu'' @ py_fmt_d tid @ ''_pt_'' @ py_fmt_X 8 v), r)] \<and>
                  log (snd (pt_thread_body h tid w)) =
                    log w @ [''[CHIPSEC][cpu'' @ py_fmt_d tid
                               @ ''] paging physical base (CR3): 0x'' @ py_fmt_X 16 v,
                             ''[CHIPSEC][cpu'' @ py_fmt_d tid
                               @ ''] dumping paging hierarchy to ''
                               @ quoted (''cpu'' @ py_fmt_d tid @ ''_pt_'' @ py_fmt_X 8 v)
                               @ ''...'']))"
proof (intro conjI allI impI)
  show "fst (cpu_cr h a w) = Inr (PyInt v)"
    using assms by (simp add: cpu_cr_def cmd_defs)
  show "log (snd (cpu_cr h a w)) =
           log w @ [''[CHIPSEC] CPU'' @ py_fmt_d t @ '': read CR'' @ py_fmt_d n
                      @ '' -> 0x'' @ py_fmt_X 8 v]"
    using assms by (simp add: cpu_cr_def cmd_defs)
next
  assume "0 \<le> v"
  then show "int (hex_value (py_fmt_X 8 v)) = v" and "int (hex_value (py_fmt_X 16 v)) = v"
    by (rule hex_value_py_fmt_X)+
next
  fix tid s'
  assume "read_cr h tid 3 (hw w) = (Inr v, s')"
  then show "\<exists>r. trace (snd (pt_thread_body h tid w)) =
                    trace w @ [(Call_read_cr tid 3, Inr (PyInt v)),
                               (Call_dump_page_tables v
                                  (''cpu'' @ py_fmt_d tid @ ''_pt_'' @ py_fmt_X 8 v), r)] \<and>
                  log (snd (pt_thread_body h tid w)) =
                    log w @ [''[CHIPSEC][cpu'' @ py_fmt_d tid
                               @ ''] paging physical base (CR3): 0x'' @ py_fmt_X 16 v,
                             ''[CHIPSEC][cpu'' @ py_fmt_d tid
                               @ ''] dumping paging hierarchy to ''
                               @ quoted (''cpu'' @ py_fmt_d tid @ ''_pt_'' @ py_fmt_X 8 v)
                               @ ''...'']"
    by (auto simp: pt_thread_body_def cmd_defs Let_def split: prod.splits)
qed

theorem control_register_read_keeps_full_value_witness:
  "self_value (cmdline Cmd_cr (Some 0) (Some 3) None None) = None \<and>
   self_cr_number (cmdline Cmd_cr (Some 0) (Some 3) None None) = Some 3 \<and>
   self_thread (cmdline Cmd_cr (Some 0) (Some 3) None None) = Some 0 \<and>
   read_cr (fake_hal 3 []) 0 3 (hw (boot sample)) = (Inr 0x0000000012345000, sample) \<and>
   fst (cpu_cr (fake_hal 3 []) (cmdline Cmd_cr (Some 0) (Some 3) None None) (boot sample)) =
     Inr (PyInt 0x0000000012345000) \<and>
   log (snd (cpu_cr (fake_hal 3 []) (cmdline Cmd_cr (Some 0) (Some 3) None None) (boot sample))) =
     [''[CHIPSEC] CPU0: read CR3 -> 0x12345000''] \<and>
   int (hex_value (py_fmt_X 8 0x0000000012345000)) = 0x0000000012345000 \<and>
   fst (cpu_cr (fake_hal 3 []) (cmdline Cmd_cr (Some 1) (Some 3) None None) (boot sample)) =
     Inr (PyInt 0x1FFFF2000) \<and>
   log (snd (cpu_cr (fake_hal 3 []) (cmdline Cmd_cr (Some 1) (Some 3) None None) (boot sample))) =
     [''[CHIPSEC] CPU1: read CR3 -> 0x1FFFF2000'']"
proof -
  let ?a = "cmdline Cmd_cr (Some 0) (Some 3) None None"
  let ?b = "cmdline Cmd_cr (Some 1) (Some 3) None None"
  have h1: "self_value ?a = None" and h2: "self_cr_number ?a = Some 3"
    and h3: "self_thread ?a = Some 0"
    by (simp_all add: cmdline_def)
  have h4: "read_cr (fake_hal 3 []) 0 3 (hw (boot sample)) = (Inr 0x0000000012345000, sample)"
    by (simp add: fake_hal_def boot_def sample_def)
  have g1: "self_value ?b = None" and g2: "self_cr_number ?b = Some 3"
    and g3: "self_thread ?b = Some 1"
    by (simp_all add: cmdline_def)
  have g4: "read_cr (fake_hal 3 []) 1 3 (hw (boot sample)) = (Inr 0x1FFFF2000, sample)"
    by (simp add: fake_hal_def boot_def sample_def)
  note a = control_register_read_keeps_full_value [OF h1 h2 h3 h4]
  note b = control_register_read_keeps_full_value [OF g1 g2 g3 g4]
  have l0: "log (boot sample) = []" by (simp add: boot_def)
  have f0: "''[CHIPSEC] CPU'' @ py_fmt_d 0 @ '': read CR'' @ py_fmt_d 3
              @ '' -> 0x'' @ py_fmt_X 8 0x0000000012345000 =
            ''[CHIPSEC] CPU0: read CR3 -> 0x12345000''"
    by (simp add: fmt_defs)
  have f1: "''[CHIPSEC] CPU'' @ py_fmt_d 1 @ '': read CR'' @ py_fmt_d 3
              @ '' -> 0x'' @ py_fmt_X 8 0x1FFFF2000 =
            ''[CHIPSEC] CPU1: read CR3 -> 0x1FFFF2000''"
    by (simp add: fmt_defs)
  from a have a1: "fst (cpu_cr (fake_hal 3 []) ?a (boot sample)) = Inr (PyInt 0x0000000012345000)"
    and a2: "log (snd (cpu_cr (fake_hal 3 []) ?a (boot sample))) =
       [''[CHIPSEC] CPU0: read CR3 -> 0x12345000'']"
    by (simp_all only: l0 f0 append_Nil)
  from a have a3: "int (hex_value (py_fmt_X 8 0x0000000012345000)) = 0x0000000012345000"
    by simp
  from b have b1: "fst (cpu_cr (fake_hal 3 []) ?b (boot sample)) = Inr (PyInt 0x1FFFF2000)"
    and b2: "log (snd (cpu_cr (fake_hal 3 []) ?b (boot sample))) =
       [''[CHIPSEC] CPU1: read CR3 -> 0x1FFFF2000'']"
    by (simp_all only: l0 f1 append_Nil)
  from h1 h2 h3 h4 a1 a2 a3 b1 b2 show ?thesis by (intro conjI)
qed

subsection \<open>The summary of \<^verbatim>\<open>cpu_info\<close>\<close>

text \<open>
  Claim C5, for the caller in \<^verbatim>\<open>cpu_info\<close>. When the four queries that do not use the
  APIC table succeed and a query of the APIC table (the thread count, or the socket count
  after it) raises an exception, \<^verbatim>\<open>cpu_info\<close> still returns normally: the exception is
  caught, the lines of the four queries have been logged, and neither of the two lines
  that need the table is. Whatever the command does next runs from the state the failed
  query left.
\<close>

theorem cpu_info_survives_APIC_failure:
  assumes "is_HT_active h (hw w) = (Inr ht, s1)"
    and "get_number_logical_processor_per_core h s1 = (Inr tpc, s2)"
    and "get_number_logical_processor_per_package h s2 = (Inr tpp, s3)"
    and "get_number_physical_processor_per_package h s3 = (Inr cpp, s4)"
    and "get_number_threads_from_APIC_table h s4 = (Inl e, s5) \<or>
         (\<exists>n s. get_number_threads_from_APIC_table h s4 = (Inr n, s) \<and>
                get_number_sockets_from_APIC_table h s = (Inl e, s5))"
    and "is_Exception e"
  shows "fst (cpu_info h w) = Inr PyNone \<and>
         log (snd (cpu_info h w)) = log w @ cpu_info_lines ht cpp tpc tpp \<and>
         stdout (snd (cpu_info h w)) = stdout w \<and>
         hw (snd (cpu_info h w)) = s5"
  using assms
  by (auto simp: cpu_info_def cmd_defs try_except_Exception_pass_def cpu_info_lines_def)

theorem cpu_info_survives_APIC_failure_witness:
  "is_HT_active (no_APIC_hal 3) (hw (boot sample)) = (Inr False, sample) \<and>
   get_number_logical_processor_per_core (no_APIC_hal 3) sample = (Inr 1, sample) \<and>
   get_number_logical_processor_per_package (no_APIC_hal 3) sample = (Inr 3, sample) \<and>
   get_number_physical_processor_per_package (no_APIC_hal 3) sample = (Inr 3, sample) \<and>
   get_number_threads_from_APIC_table (no_APIC_hal 3) sample =
     (Inl (OtherException ''TopologyUnavailable''), sample) \<and>
   is_Exception (OtherException ''TopologyUnavailable'') \<and>
   fst (cpu_info (no_APIC_hal 3) (boot sample)) = Inr PyNone \<and>
   log (snd (cpu_info (no_APIC_hal 3) (boot sample))) =
     [''[CHIPSEC] CPU information:'',
      ''          Hyper-Threading         : Disabled'',
      ''          CPU cores per package   : 3'',
      ''          CPU threads per core    : 1'',
      ''          CPU threads per package : 3''] \<and>
   hw (snd (cpu_info (no_APIC_hal 3) (boot sample))) = sample \<and>
   fst (cpu_cr (no_APIC_hal 3) (cmdline Cmd_cr (Some 0) (Some 3) None None)
          (snd (cpu_info (no_APIC_hal 3) (boot sample)))) = Inr (PyInt 0x12345000) \<and>
   fst (cpu_cpuid (no_APIC_hal 3) (cmdline Cmd_cpuid None None None None)
          (snd (cpu_info (no_APIC_hal 3) (boot sample)))) = Inr PyNone"
proof -
  let ?h = "no_APIC_hal 3"
  have h1: "is_HT_active ?h (hw (boot sample)) = (Inr False, sample)"
    and h2: "get_number_logical_processor_per_core ?h sample = (Inr 1, sample)"
    and h3: "get_number_logical_processor_per_package ?h sample = (Inr 3, sample)"
    and h4: "get_number_physical_processor_per_package ?h sample = (Inr 3, sample)"
    and h5: "get_number_threads_from_APIC_table ?h sample =
       (Inl (OtherException ''TopologyUnavailable''), sample)"
    by (simp_all add: no_APIC_hal_def fake_hal_def boot_def)
  have h6: "is_Exception (OtherException ''TopologyUnavailable'')" by simp
  note t = cpu_info_survives_APIC_failure [OF h1 h2 h3 h4 disjI1 [OF h5] h6]
  have lines: "log (boot sample) @ cpu_info_lines False 3 1 3 =
     [''[CHIPSEC] CPU information:'',
      ''          Hyper-Threading         : Disabled'',
      ''          CPU cores per package   : 3'',
      ''          CPU threads per core    : 1'',
      ''          CPU threads per package : 3'']"
    by (simp add: cpu_info_lines_def boot_def fmt_defs)
  from t have c1: "fst (cpu_info ?h (boot sample)) = Inr PyNone"
    and c2: "log (snd (cpu_info ?h (boot sample))) =
     [''[CHIPSEC] CPU information:'',
      ''          Hyper-Threading         : Disabled'',
      ''          CPU cores per package   : 3'',
      ''          CPU threads per core    : 1'',
      ''          CPU threads per package : 3'']"
    and c3: "hw (snd (cpu_info ?h (boot sample))) = sample"
    by (simp_all only: lines)
  have c4: "fst (cpu_cr ?h (cmdline Cmd_cr (Some 0) (Some 3) None None)
          (snd (cpu_info ?h (boot sample)))) = Inr (PyInt 0x12345000)"
    using c3 by (simp add: cpu_cr_def cmd_defs cmdline_def no_APIC_hal_def fake_hal_def sample_def)
  have c5: "fst (cpu_cpuid ?h (cmdline Cmd_cpuid None None None None)
          (snd (cpu_info ?h (boot sample)))) = Inr PyNone"
    by (simp add: cpu_cpuid_def cmd_defs cmdline_def no_APIC_hal_def fake_hal_def)
  from h1 h2 h3 h4 h5 h6 c1 c2 c3 c4 c5 show ?thesis by (intro conjI)
qed

subsection \<open>The runner\<close>

text \<open>
  Claim C10, as the code has it. \<^verbatim>\<open>run\<close> has four outcomes. The constructor raises
  \<^verbatim>\<open>CPURuntimeError\<close>: the message is printed, \<^verbatim>\<open>run\<close> returns, nothing is logged
  and the constructor is the only call made. The constructor raises anything else: that
  exception leaves \<^verbatim>\<open>run\<close>. The constructor succeeds and the subcommand returns: the
  elapsed-time line is logged after whatever the subcommand logged. The constructor
  succeeds and the subcommand raises: the exception leaves \<^verbatim>\<open>run\<close> and no elapsed-time
  line is logged.
\<close>

theorem run_outcomes:
  "(CPU h (hw w) = (Inl (CPURuntimeError msg), s1) \<longrightarrow>
      run h a w =
        (Inr (), w\<lparr>hw := s1, trace := trace w @ [(Call_CPU, Inl (CPURuntimeError msg))],
                   stdout := stdout w @ [msg]\<rparr>))
   \<and> (CPU h (hw w) = (Inl e, s1) \<longrightarrow> (\<forall>m. e \<noteq> CPURuntimeError m) \<longrightarrow>
      run h a w = (Inl e, w\<lparr>hw := s1, trace := trace w @ [(Call_CPU, Inl e)]\<rparr>))
   \<and> (CPU h (hw w) = (Inr (), s1) \<longrightarrow>
      dispatch (self_func a) h a (w\<lparr>hw := s1, trace := trace w @ [(Call_CPU, Inr PyNone)]\<rparr>)
        = (Inr r, w2) \<longrightarrow>
      run h a w = (Inr (), w2\<lparr>log := log w2 @ [elapsed_line h (time h (hw w)) (hw w2)]\<rparr>))
   \<and> (CPU h (hw w) = (Inr (), s1) \<longrightarrow>
      dispatch (self_func a) h a (w\<lparr>hw := s1, trace := trace w @ [(Call_CPU, Inr PyNone)]\<rparr>)
        = (Inl e', w2) \<longrightarrow>
      run h a w = (Inl e', w2))"
proof (intro conjI impI)
  assume "CPU h (hw w) = (Inl (CPURuntimeError msg), s1)"
  then show "run h a w =
        (Inr (), w\<lparr>hw := s1, trace := trace w @ [(Call_CPU, Inl (CPURuntimeError msg))],
                   stdout := stdout w @ [msg]\<rparr>)"
    by (simp add: run_def invoke_def)
next
  assume "CPU h (hw w) = (Inl e, s1)" and "\<forall>m. e \<noteq> CPURuntimeError m"
  then show "run h a w = (Inl e, w\<lparr>hw := s1, trace := trace w @ [(Call_CPU, Inl e)]\<rparr>)"
    by (cases e) (simp_all add: run_def invoke_def)
next
  assume "CPU h (hw w) = (Inr (), s1)"
    and "dispatch (self_func a) h a (w\<lparr>hw := s1, trace := trace w @ [(Call_CPU, Inr PyNone)]\<rparr>)
        = (Inr r, w2)"
  then show "run h a w =
      (Inr (), w2\<lparr>log := log w2 @ [elapsed_line h (time h (hw w)) (hw w2)]\<rparr>)"
    by (simp add: run_def invoke_def logger_log_def)
next
  assume "CPU h (hw w) = (Inr (), s1)"
    and "dispatch (self_func a) h a (w\<lparr>hw := s1, trace := trace w @ [(Call_CPU, Inr PyNone)]\<rparr>)
        = (Inl e', w2)"
  then show "run h a w = (Inl e', w2)"
    by (simp add: run_def invoke_def)
qed

text \<open>
  The claim as stated fails: the constructor succeeds, the subcommand (the enumeration,
  with thread 1 not responding) raises, and the log ends with the block of thread 0: there
  is no elapsed-time line.
\<close>

theorem run_elapsed_line_not_always_counterexample:
  "CPU (fake_hal 3 [1]) sample = (Inr (), sample) \<and>
   run (fake_hal 3 [1]) (cmdline Cmd_cr None None None None) (boot sample) =
     (Inl (OtherException ''thread unavailable''),
      \<lparr> hw = sample,
        log = [''[CHIPSEC][cpu0] x86 Control Registers:'',
               ''  CR0: 0x0000000000000000'',
               ''  CR2: 0x0000000000000000'',
               ''  CR3: 0x0000000012345000'',
               ''  CR4: 0x0000000000000000'',
               ''  CR8: 0x0000000000000000''],
        stdout = [],
        trace = [(Call_CPU, Inr PyNone),
                 (Call_get_cpu_thread_count, Inr (PyInt 3)),
                 (Call_read_cr 0 0, Inr (PyInt 0)),
                 (Call_read_cr 0 2, Inr (PyInt 0)),
                 (Call_read_cr 0 3, Inr (PyInt 0x12345000)),
                 (Call_read_cr 0 4, Inr (PyInt 0)),
                 (Call_read_cr 0 8, Inr (PyInt 0)),
                 (Call_read_cr 1 0, Inl (OtherException ''thread unavailable''))] \<rparr>)"
  by (simp add: run_def cpu_cr_def cr_thread_body_def fake_hal_def cmdline_def boot_def sample_def
      cmd_defs fmt_defs py_range_3)

theorem run_outcomes_witness:
  "CPU (no_CPU_hal 3) (hw (boot sample)) = (Inl (CPURuntimeError ''unsupported platform''), sample) \<and>
   run (no_CPU_hal 3) (cmdline Cmd_cr (Some 0) (Some 3) None None) (boot sample) =
     (Inr (), \<lparr> hw = sample, log = [], stdout = [''unsupported platform''],
               trace = [(Call_CPU, Inl (CPURuntimeError ''unsupported platform''))] \<rparr>) \<and>
   CPU (fake_hal 3 []) (hw (boot sample)) = (Inr (), sample) \<and>
   run (fake_hal 3 []) (cmdline Cmd_cr (Some 0) (Some 3) None None) (boot sample) =
     (Inr (), \<lparr> hw = sample,
               log = [''[CHIPSEC] CPU0: read CR3 -> 0x12345000'',
                      ''[CHIPSEC] (cpu) time elapsed 0.000''],
               stdout = [],
               trace = [(Call_CPU, Inr PyNone), (Call_read_cr 0 3, Inr (PyInt 0x12345000))] \<rparr>) \<and>
   CPU (fake_hal 3 [0]) (hw (boot sample)) = (Inr (), sample) \<and>
   run (fake_hal 3 [0]) (cmdline Cmd_cr (Some 0) (Some 3) None None) (boot sample) =
     (Inl (OtherException ''thread unavailable''),
      \<lparr> hw = sample, log = [], stdout = [],
        trace = [(Call_CPU, Inr PyNone),
                 (Call_read_cr 0 3, Inl (OtherException ''thread unavailable''))] \<rparr>)"
proof -
  let ?a = "cmdline Cmd_cr (Some 0) (Some 3) None None"
  let ?w = "boot sample"
  have h1: "CPU (no_CPU_hal 3) (hw ?w) = (Inl (CPURuntimeError ''unsupported platform''), sample)"
    by (simp add: no_CPU_hal_def fake_hal_def boot_def)
  have h2: "CPU (fake_hal 3 []) (hw ?w) = (Inr (), sample)"
    by (simp add: fake_hal_def boot_def)
  have h3: "CPU (fake_hal 3 [0]) (hw ?w) = (Inr (), sample)"
    by (simp add: fake_hal_def boot_def)
  have d2: "dispatch (self_func ?a) (fake_hal 3 []) ?a
              (?w\<lparr>hw := sample, trace := trace ?w @ [(Call_CPU, Inr PyNone)]\<rparr>) =
            (Inr (PyInt 0x12345000),
             \<lparr> hw = sample, log = [''[CHIPSEC] CPU0: read CR3 -> 0x12345000''], stdout = [],
               trace = [(Call_CPU, Inr PyNone), (Call_read_cr 0 3, Inr (PyInt 0x12345000))] \<rparr>)"
    by (simp add: cmdline_def cpu_cr_def cmd_defs fake_hal_def boot_def sample_def fmt_defs)
  have d3: "dispatch (self_func ?a) (fake_hal 3 [0]) ?a
              (?w\<lparr>hw := sample, trace := trace ?w @ [(Call_CPU, Inr PyNone)]\<rparr>) =
            (Inl (OtherException ''thread unavailable''),
             \<lparr> hw = sample, log = [], stdout = [],
               trace = [(Call_CPU, Inr PyNone),
                        (Call_read_cr 0 3, Inl (OtherException ''thread unavailable''))] \<rparr>)"
    by (simp add: cmdline_def cpu_cr_def cmd_defs fake_hal_def boot_def sample_def)
  have c1: "run (no_CPU_hal 3) ?a ?w =
     (Inr (), \<lparr> hw = sample, log = [], stdout = [''unsupported platform''],
               trace = [(Call_CPU, Inl (CPURuntimeError ''unsupported platform''))] \<rparr>)"
    using mp [OF conjunct1 [OF run_outcomes [where h = "no_CPU_hal 3" and w = ?w and a = ?a]] h1]
    by (simp add: boot_def)
  have c2: "run (fake_hal 3 []) ?a ?w =
     (Inr (), \<lparr> hw = sample,
               log = [''[CHIPSEC] CPU0: read CR3 -> 0x12345000'',
                      ''[CHIPSEC] (cpu) time elapsed 0.000''],
               stdout = [],
               trace = [(Call_CPU, Inr PyNone), (Call_read_cr 0 3, Inr (PyInt 0x12345000))] \<rparr>)"
    using mp [OF mp [OF conjunct1 [OF conjunct2 [OF conjunct2
      [OF run_outcomes [where h = "fake_hal 3 []" and w = ?w and a = ?a]]]] h2] d2]
    by (simp add: elapsed_line_def fake_hal_def)
  have c3: "run (fake_hal 3 [0]) ?a ?w =
     (Inl (OtherException ''thread unavailable''),
      \<lparr> hw = sample, log = [], stdout = [],
        trace = [(Call_CPU, Inr PyNone),
                 (Call_read_cr 0 3, Inl (OtherException ''thread unavailable''))] \<rparr>)"
    using mp [OF mp [OF conjunct2 [OF conjunct2 [OF conjunct2
      [OF run_outcomes [where h = "fake_hal 3 [0]" and w = ?w and a = ?a]]]] h3] d3]
    by simp
  from h1 c1 h2 c2 h3 c3 show ?thesis by (intro conjI)
qed

section \<open>Properties of the modelled layer\<close>

subsection \<open>The depth of the walk\<close>

lemma build_node_numeral:
  "build_node mem m (numeral k) base =
     (case mem base of
        None \<Rightarrow> Unreadable base
      | Some es \<Rightarrow>
          Table base
            (map (\<lambda>(i, e).
                    if pageSize e \<or> pred_numeral k = 0 then Terminal i e
                    else Pointer i e (build_node mem m (pred_numeral k) (physicalAddress e)))
                 (filter (\<lambda>(i, e). present e) (enumerate 0 (take (slots m) es)))))"
  by (simp add: numeral_eq_Suc)

lemma foldr_max_le: "(\<And>x. x \<in> set xs \<Longrightarrow> x \<le> (b::nat)) \<Longrightarrow> foldr max xs 0 \<le> b"
  by (induction xs) auto

lemma height_build_node: "height (build_node mem m r base) \<le> max 1 r"
proof (induction r arbitrary: base)
  case 0
  show ?case by simp
next
  case (Suc r)
  show ?case
  proof (cases "mem base")
    case None
    then show ?thesis by simp
  next
    case (Some es)
    have "foldr max (map slot_height
            (map (\<lambda>(i, e).
                    if pageSize e \<or> r = 0 then Terminal i e
                    else Pointer i e (build_node mem m r (physicalAddress e)))
                 (filter (\<lambda>(i, e). present e) (enumerate 0 (take (slots m) es))))) 0 \<le> r"
    proof (rule foldr_max_le)
      fix x
      assume "x \<in> set (map slot_height
            (map (\<lambda>(i, e).
                    if pageSize e \<or> r = 0 then Terminal i e
                    else Pointer i e (build_node mem m r (physicalAddress e)))
                 (filter (\<lambda>(i, e). present e) (enumerate 0 (take (slots m) es)))))"
      then obtain i e where "x = slot_height (if pageSize e \<or> r = 0 then Terminal i e
                    else Pointer i e (build_node mem m r (physicalAddress e)))"
        by auto
      with Suc.IH [of "physicalAddress e"] show "x \<le> r"
        by (auto split: if_splits)
    qed
    with Some show ?thesis by simp
  qed
qed

text \<open>
  Claim C2, on the walker modelled from the specification. Whatever the memory holds,
  entries that point back at an ancestor's page included, the tree the walk builds is never
  deeper than the level count of the mode (2, 3, 4 or 5). \<open>build_node\<close> is defined by
  recursion on the number of levels that remain, so the walk is total: it returns for every
  memory.
\<close>

theorem walk_depth_bounded:
  "height (build_node mem m (levels m) physicalBase) \<le> levels m"
  using height_build_node [of mem m "levels m" physicalBase] by (cases m) simp_all

theorem walk_depth_bounded_witness:
  "height (build_node self_referential Long5Level (levels Long5Level) 0x1000) = 5 \<and>
   height (build_node self_referential Long5Level (levels Long5Level) 0x1000)
     \<le> levels Long5Level"
proof -
  have "height (build_node self_referential Long5Level (levels Long5Level) 0x1000) = 5"
    by (simp add: build_node_numeral self_referential_def slots_def pointer_to_def
        absent_entry_def)
  with walk_depth_bounded [of self_referential Long5Level "0x1000"] show ?thesis by simp
qed

subsection \<open>The order of the mapping records\<close>

lemma mappings_append: "mappings (xs @ ys) = mappings xs @ mappings ys"
  by (induction xs rule: mappings.induct) simp_all

lemma mappings_concat: "mappings (concat xss) = concat (map mappings xss)"
  by (induction xss) (simp_all add: mappings_append)

lemma in_window_Nil: "in_window m lo hi []"
  by (simp add: in_window_def)

lemma in_window_mono: "in_window m lo hi rs \<Longrightarrow> lo' \<le> lo \<Longrightarrow> hi \<le> hi' \<Longrightarrow> in_window m lo' hi' rs"
  unfolding in_window_def by fastforce

lemma in_window_append:
  assumes "in_window m lo mid rs" and "in_window m mid hi rs'" and "lo \<le> mid" and "mid \<le> hi"
  shows "in_window m lo hi (rs @ rs')"
proof -
  from assms(1,2) obtain vs vs' where
    a: "map virtualAddress rs = map (canonical m) vs" "sorted_wrt (<) vs"
       "\<forall>v\<in>set vs. lo \<le> v \<and> v < mid"
    and b: "map virtualAddress rs' = map (canonical m) vs'" "sorted_wrt (<) vs'"
       "\<forall>v\<in>set vs'. mid \<le> v \<and> v < hi"
    unfolding in_window_def by blast
  have "sorted_wrt (<) (vs @ vs')"
    using a b by (fastforce simp: sorted_wrt_append)
  moreover have "\<forall>v\<in>set (vs @ vs'). lo \<le> v \<and> v < hi"
    using a(3) b(3) assms(3,4) by fastforce
  moreover have "map virtualAddress (rs @ rs') = map (canonical m) (vs @ vs')"
    using a b by simp
  ultimately show ?thesis unfolding in_window_def by blast
qed

text \<open>Slots in ascending index order, each within its own stride of the table's range.\<close>

lemma in_window_concat:
  fixes s :: nat
  assumes "sorted_wrt (<) (map fst xs)"
    and "\<And>i e. (i, e) \<in> set xs \<Longrightarrow> i < n"
    and "\<And>i e. (i, e) \<in> set xs \<Longrightarrow> in_window m (va + i * s) (va + (i + 1) * s) (G (i, e))"
  shows "in_window m va (va + n * s) (concat (map G xs))"
  using assms
proof (induction xs arbitrary: va n rule: rev_induct)
  case Nil
  show ?case by (simp add: in_window_Nil)
next
  case (snoc x xs)
  obtain i e where x: "x = (i, e)" by (cases x)
  have i: "i < n" using snoc.prems(2) [of i e] x by simp
  have sorted: "sorted_wrt (<) (map fst xs)" and below: "\<forall>j\<in>set (map fst xs). j < i"
    using snoc.prems(1) x by (auto simp: sorted_wrt_append)
  have "in_window m va (va + i * s) (concat (map G xs))"
  proof (rule snoc.IH [OF sorted])
    fix j e' assume "(j, e') \<in> set xs"
    then show "j < i" using below by force
  next
    fix j e' assume "(j, e') \<in> set xs"
    then show "in_window m (va + j * s) (va + (j + 1) * s) (G (j, e'))"
      using snoc.prems(3) [of j e'] by simp
  qed
  moreover have "in_window m (va + i * s) (va + (i + 1) * s) (G x)"
    using snoc.prems(3) [of i e] x by simp
  ultimately have "in_window m va (va + (i + 1) * s) (concat (map G xs) @ G x)"
    by (rule in_window_append) simp_all
  moreover have "va + (i + 1) * s \<le> va + n * s"
    using i by (simp add: Suc_leI mult_le_mono1 del: mult_Suc)
  ultimately show ?case
    using in_window_mono [of m va "va + (i + 1) * s" _ va "va + n * s"] by simp
qed

lemma span_Suc: "entry_span m (Suc r) = 2 ^ (12 + index_bits m * r)"
  by (simp add: entry_span_def)

lemma slots_span: "slots m * entry_span m (Suc r) = 2 ^ (12 + index_bits m * Suc r)"
  by (simp add: entry_span_def slots_def power_add [symmetric] add.commute add.left_commute)

lemma enumerate_filter_sorted:
  "sorted_wrt (<) (map fst (filter P (enumerate k xs)))"
proof -
  have "sorted_wrt (<) (map fst (enumerate k xs))"
    by (simp add: map_fst_enumerate sorted_wrt_upt)
  then show ?thesis
    by (metis sorted_wrt_filter sorted_wrt_map)
qed

lemma enumerate_take_bound:
  "(i, e) \<in> set (filter P (enumerate 0 (take n xs))) \<Longrightarrow> i < n"
  by (auto simp: in_set_enumerate_eq)

lemma records_in_window:
  "in_window m va (va + 2 ^ (12 + index_bits m * r))
     (mappings (records m r va (build_node mem m r base)))"
proof (induction r arbitrary: va base)
  case 0
  show ?case by (simp add: in_window_Nil)
next
  case (Suc r)
  show ?case
  proof (cases "mem base")
    case None
    then show ?thesis by (simp add: in_window_Nil)
  next
    case (Some es)
    let ?xs = "filter (\<lambda>(i, e). present e) (enumerate 0 (take (slots m) es))"
    let ?f = "\<lambda>(i, e). if pageSize e \<or> r = 0 then Terminal i e
                    else Pointer i e (build_node mem m r (physicalAddress e))"
    let ?G = "\<lambda>x. mappings (slot_records m (Suc r) va (?f x))"
    have eq: "mappings (records m (Suc r) va (build_node mem m (Suc r) base)) =
              concat (map ?G ?xs)"
      using Some by (simp add: mappings_concat comp_def)
    have "in_window m va (va + slots m * entry_span m (Suc r)) (concat (map ?G ?xs))"
    proof (rule in_window_concat)
      show "sorted_wrt (<) (map fst ?xs)" by (rule enumerate_filter_sorted)
    next
      fix i e assume "(i, e) \<in> set ?xs"
      then show "i < slots m" by (rule enumerate_take_bound)
    next
      fix i e assume "(i, e) \<in> set ?xs"
      show "in_window m (va + i * entry_span m (Suc r)) (va + (i + 1) * entry_span m (Suc r)) (?G (i, e))"
      proof (cases "pageSize e \<or> r = 0")
        case True
        then have "?G (i, e) =
          [\<lparr> virtualAddress = canonical m (va + i * entry_span m (Suc r)),
             mappedAddress = physicalAddress e - physicalAddress e mod entry_span m (Suc r),
             pageBytes = entry_span m (Suc r),
             permissions = (writable e, userAccessible e, noExecute e) \<rparr>]"
          by simp
        moreover have "0 < entry_span m (Suc r)" by (simp add: entry_span_def)
        ultimately show ?thesis
          unfolding in_window_def
          by (intro exI [of _ "[va + i * entry_span m (Suc r)]"]) simp
      next
        case False
        then have "?G (i, e) =
          mappings (records m r (va + i * entry_span m (Suc r))
                      (build_node mem m r (physicalAddress e)))"
          by simp
        with Suc.IH [of "va + i * entry_span m (Suc r)" "physicalAddress e"]
        show ?thesis by (simp add: span_Suc ac_simps)
      qed
    qed
    then show ?thesis by (simp only: eq slots_span)
  qed
qed

lemma va_width_le: "va_width m \<le> 57"
  by (cases m) (simp_all add: va_width_def)

lemma canonical_strict_mono:
  assumes "a < b" and "b < 2 ^ va_width m"
  shows "canonical m a < canonical m b"
proof -
  have "(2::nat) ^ va_width m \<le> 2 ^ 64"
    by (rule power_increasing) (use va_width_le [of m] in simp_all)
  with assms show ?thesis
    by (auto simp: canonical_def)
qed

lemma canonical_less: 
  assumes "v < 2 ^ va_width m"
  shows "canonical m v < 2 ^ 64"
proof -
  have "(2::nat) ^ va_width m \<le> 2 ^ 64"
    by (rule power_increasing) (use va_width_le [of m] in simp_all)
  with assms show ?thesis
    by (auto simp: canonical_def)
qed

text \<open>
  Claim C3, on the walker modelled from the specification. The mapping records of a walk
  are strictly ascending by reconstructed virtual address (compared as unsigned 64-bit
  values, canonical sign extension applied), so no two of them have the same
  virtual-address range.
\<close>

theorem walk_mappings_strictly_ascending:
  "sorted_wrt (\<lambda>a b. virtualAddress a < virtualAddress b) (mappings (walk mem physicalBase m)) \<and>
   distinct (map (\<lambda>r. (virtualAddress r, pageBytes r)) (mappings (walk mem physicalBase m))) \<and>
   (\<forall>r\<in>set (mappings (walk mem physicalBase m)). virtualAddress r < 2 ^ 64)"
proof -
  let ?rs = "mappings (walk mem physicalBase m)"
  from records_in_window [of m 0 "levels m" mem physicalBase]
  obtain vs where vs: "map virtualAddress ?rs = map (canonical m) vs" "sorted_wrt (<) vs"
    "\<forall>v\<in>set vs. v < 2 ^ va_width m"
    unfolding in_window_def walk_def va_width_def by auto
  have "sorted_wrt (\<lambda>a b. canonical m a < canonical m b) vs"
    using vs(2,3) canonical_strict_mono [of _ _ m]
    by (auto intro: sorted_wrt_mono_rel [rotated])
  then have s: "sorted_wrt (<) (map virtualAddress ?rs)"
    by (simp add: vs(1) sorted_wrt_map)
  then have 1: "sorted_wrt (\<lambda>a b. virtualAddress a < virtualAddress b) ?rs"
    by (simp add: sorted_wrt_map)
  from s have "distinct (map virtualAddress ?rs)"
    by (simp add: strict_sorted_iff)
  then have 2: "distinct (map (\<lambda>r. (virtualAddress r, pageBytes r)) ?rs)"
    by (auto simp: distinct_map inj_on_def)
  have "\<forall>x\<in>set (map virtualAddress ?rs). x < 2 ^ 64"
    unfolding vs(1) using vs(3) canonical_less [of _ m] by auto
  then have 3: "\<forall>r\<in>set ?rs. virtualAddress r < 2 ^ 64" by simp
  from 1 2 3 show ?thesis by (intro conjI)
qed


lemmas walk_eval = walk_def build_node_numeral slots_def pointer_to_def absent_entry_def
  page_at_def replicate_numeral_unfold entry_span_def canonical_def va_width_def

lemma sample_walk:
  "walk sample_memory 0x1000 Long4Level =
     [MappingRecord \<lparr> virtualAddress = 0x0000181C0000000, mappedAddress = 0x40200000,
                      pageBytes = 0x200000, permissions = (True, False, False) \<rparr>,
      MappingRecord \<lparr> virtualAddress = 0x0000181C0200000, mappedAddress = 0x7000,
                      pageBytes = 0x1000, permissions = (True, False, False) \<rparr>,
      MappingRecord \<lparr> virtualAddress = 0x0000181C0202000, mappedAddress = 0x9000,
                      pageBytes = 0x1000, permissions = (True, False, False) \<rparr>,
      PageReadError 0x6000,
      MappingRecord \<lparr> virtualAddress = 0xFFFF800000000000, mappedAddress = 0,
                      pageBytes = 0x8000000000, permissions = (True, False, False) \<rparr>]"
  by (simp add: walk_eval sample_memory_def)

theorem walk_mappings_strictly_ascending_witness:
  "map virtualAddress (mappings (walk sample_memory 0x1000 Long4Level)) =
     [0x0000181C0000000, 0x0000181C0200000, 0x0000181C0202000, 0xFFFF800000000000] \<and>
   sorted_wrt (\<lambda>a b. virtualAddress a < virtualAddress b)
     (mappings (walk sample_memory 0x1000 Long4Level)) \<and>
   distinct (map (\<lambda>r. (virtualAddress r, pageBytes r))
     (mappings (walk sample_memory 0x1000 Long4Level)))"
proof -
  have "map virtualAddress (mappings (walk sample_memory 0x1000 Long4Level)) =
     [0x0000181C0000000, 0x0000181C0200000, 0x0000181C0202000, 0xFFFF800000000000]"
    by (simp add: sample_walk)
  with walk_mappings_strictly_ascending [of sample_memory "0x1000" Long4Level]
  show ?thesis by (intro conjI) (simp_all only: simp_thms)
qed

subsection \<open>The register access facade\<close>

lemma facade_read_cr:
  "read_cr (facade_hal n) t c ch = raised (readControlRegister n t c ch) uint"
  by (simp add: facade_hal_def)

lemma facade_write_cr:
  "write_cr (facade_hal n) t c x ch =
     (if 0 \<le> x \<and> x < 2 ^ 64
      then raised (writeControlRegister n t c (word_of_int x) ch) (\<lambda>u. u)
      else (Inl (OtherException ''InvalidArgument''), ch))"
  by (simp add: facade_hal_def)

lemma cmdline_sel:
  "self_thread (cmdline f t n v b) = t"
  "self_cr_number (cmdline f t n v b) = n"
  "self_value (cmdline f t n v b) = v"
  by (simp_all add: cmdline_def)

text \<open>
  Claim C6, on the facade modelled from the specification. A thread index outside
  \<open>[0, threadCount)\<close> or a register number outside 0, 2, 3, 4 and 8 makes the read and
  the write fail with \<open>InvalidArgument\<close> and hands back the channel as it was, its list
  of requests included. The command itself checks neither argument
  (\<^verbatim>\<open>cpu_cr\<close> passes them on as parsed): run on the facade, it makes the one call,
  receives the error and leaves the channel untouched.
\<close>

theorem invalid_argument_before_channel:
  assumes "thread < 0 \<or> int threadCount \<le> thread \<or> crNumber \<notin> {0, 2, 3, 4, 8}"
  shows "readControlRegister threadCount thread crNumber ch = (Inl InvalidArgument, ch) \<and>
         writeControlRegister threadCount thread crNumber v ch = (Inl InvalidArgument, ch) \<and>
         cpu_cr (facade_hal threadCount) (cmdline Cmd_cr (Some thread) (Some crNumber) None None) w
           = (Inl (OtherException ''InvalidArgument''),
              w\<lparr>trace := trace w @ [(Call_read_cr thread crNumber,
                                       Inl (OtherException ''InvalidArgument''))]\<rparr>) \<and>
         hw (snd (cpu_cr (facade_hal threadCount)
                    (cmdline Cmd_cr (Some thread) (Some crNumber) (Some x) None) w)) = hw w"
proof -
  have invalid: "\<not> valid_target threadCount thread crNumber"
    using assms by (auto simp: valid_target_def)
  have r: "readControlRegister threadCount thread crNumber c = (Inl InvalidArgument, c)" for c
    using invalid by (simp add: readControlRegister_def)
  have wr: "writeControlRegister threadCount thread crNumber u c = (Inl InvalidArgument, c)"
    for u c
    using invalid by (simp add: writeControlRegister_def)
  have c1: "cpu_cr (facade_hal threadCount)
              (cmdline Cmd_cr (Some thread) (Some crNumber) None None) w
           = (Inl (OtherException ''InvalidArgument''),
              w\<lparr>trace := trace w @ [(Call_read_cr thread crNumber,
                                       Inl (OtherException ''InvalidArgument''))]\<rparr>)"
    by (simp add: cpu_cr_def cmdline_sel cmd_defs facade_read_cr r raised_def)
  have c2: "hw (snd (cpu_cr (facade_hal threadCount)
                    (cmdline Cmd_cr (Some thread) (Some crNumber) (Some x) None) w)) = hw w"
    by (simp add: cpu_cr_def cmdline_sel cmd_defs facade_write_cr wr raised_def)
  from r wr c1 c2 show ?thesis by (intro conjI)
qed

theorem invalid_argument_before_channel_witness:
  "readControlRegister 4 4 3 idle_channel = (Inl InvalidArgument, idle_channel) \<and>
   writeControlRegister 4 4 3 0x80000011 idle_channel = (Inl InvalidArgument, idle_channel) \<and>
   readControlRegister 4 0 1 idle_channel = (Inl InvalidArgument, idle_channel) \<and>
   requests (hw (snd (cpu_cr (facade_hal 4) (cmdline Cmd_cr (Some (- 1)) (Some 0) None None)
                        (boot idle_channel)))) = [] \<and>
   requests (hw (snd (cpu_cr (facade_hal 4) (cmdline Cmd_cr (Some 0) (Some 0) None None)
                        (boot idle_channel)))) = [ReadCR 0 0]"
proof -
  have a: "(4::int) < 0 \<or> int 4 \<le> 4 \<or> (3::int) \<notin> {0, 2, 3, 4, 8}" by simp
  have b: "(0::int) < 0 \<or> int 4 \<le> 0 \<or> (1::int) \<notin> {0, 2, 3, 4, 8}" by simp
  have c: "(- 1::int) < 0 \<or> int 4 \<le> - 1 \<or> (0::int) \<notin> {0, 2, 3, 4, 8}" by simp
  have t1: "readControlRegister 4 4 3 idle_channel = (Inl InvalidArgument, idle_channel)"
    and t2: "writeControlRegister 4 4 3 0x80000011 idle_channel
               = (Inl InvalidArgument, idle_channel)"
    using invalid_argument_before_channel [OF a, of idle_channel "0x80000011"] by simp_all
  have t3: "readControlRegister 4 0 1 idle_channel = (Inl InvalidArgument, idle_channel)"
    using invalid_argument_before_channel [OF b, of idle_channel] by simp
  have "cpu_cr (facade_hal 4) (cmdline Cmd_cr (Some (- 1)) (Some 0) None None)
          (boot idle_channel)
        = (Inl (OtherException ''InvalidArgument''),
           (boot idle_channel)\<lparr>trace := trace (boot idle_channel) @
              [(Call_read_cr (- 1) 0, Inl (OtherException ''InvalidArgument''))]\<rparr>)"
    using invalid_argument_before_channel [OF c, of idle_channel 0 "boot idle_channel"]
    by simp
  then have t4: "requests (hw (snd (cpu_cr (facade_hal 4)
                   (cmdline Cmd_cr (Some (- 1)) (Some 0) None None) (boot idle_channel)))) = []"
    by (simp add: boot_def idle_channel_def)
  have t5: "requests (hw (snd (cpu_cr (facade_hal 4)
                   (cmdline Cmd_cr (Some 0) (Some 0) None None) (boot idle_channel))))
            = [ReadCR 0 0]"
    by (simp add: cpu_cr_def cmdline_sel cmd_defs facade_read_cr raised_def
        readControlRegister_def valid_target_def channel_read_def boot_def idle_channel_def)
  from t1 t2 t3 t4 t5 show ?thesis by (intro conjI)
qed

text \<open>
  Claim C7, on the facade modelled from the specification. For a thread in
  \<open>[0, threadCount)\<close> that responds on a channel that can be reached, and a register
  number among 0, 2, 3, 4 and 8, the write is accepted and the read that follows it on the
  state the write left returns the value written; so does \<^verbatim>\<open>cpu_cr\<close> run twice
  on the facade, first with a value below \<open>2 ^ 64\<close> and then without one.
\<close>

theorem write_then_read_round_trip:
  assumes "0 \<le> thread" and "thread < int threadCount" and "crNumber \<in> {0, 2, 3, 4, 8}"
    and "reachable (hw w)" and "responding (hw w) (nat thread)"
    and "0 \<le> x" and "x < 2 ^ 64"
  shows "fst (writeControlRegister threadCount thread crNumber v (hw w)) = Inr () \<and>
         fst (readControlRegister threadCount thread crNumber
                (snd (writeControlRegister threadCount thread crNumber v (hw w)))) = Inr v \<and>
         fst (cpu_cr (facade_hal threadCount)
                (cmdline Cmd_cr (Some thread) (Some crNumber) (Some x) None) w)
           = Inr (PyBool True) \<and>
         fst (cpu_cr (facade_hal threadCount)
                (cmdline Cmd_cr (Some thread) (Some crNumber) None None)
                (snd (cpu_cr (facade_hal threadCount)
                        (cmdline Cmd_cr (Some thread) (Some crNumber) (Some x) None) w)))
           = Inr (PyInt x)"
proof -
  have valid: "valid_target threadCount thread crNumber"
    using assms(1-3) by (simp add: valid_target_def)
  have wr: "writeControlRegister threadCount thread crNumber u (hw w)
              = (Inr (), (hw w)\<lparr>requests := requests (hw w)
                                   @ [WriteCR (nat thread) (nat crNumber) u],
                                 registers := (registers (hw w))
                                   ((nat thread, nat crNumber) := u)\<rparr>)" for u
    using valid assms(4,5) by (simp add: writeControlRegister_def channel_write_def Let_def)
  have rd: "fst (readControlRegister threadCount thread crNumber
              ((hw w)\<lparr>requests := q, registers := (registers (hw w))
                                   ((nat thread, nat crNumber) := u)\<rparr>)) = Inr u" for u q
    using valid assms(4,5) by (simp add: readControlRegister_def channel_read_def Let_def)
  have u: "uint (word_of_int x :: 64 word) = x"
    using assms(6,7) by (simp add: uint_word_of_int take_bit_int_eq_self)
  have g1: "fst (writeControlRegister threadCount thread crNumber v (hw w)) = Inr ()"
    by (simp add: wr)
  have g2: "fst (readControlRegister threadCount thread crNumber
                (snd (writeControlRegister threadCount thread crNumber v (hw w)))) = Inr v"
    by (simp add: wr rd)
  have g3: "fst (cpu_cr (facade_hal threadCount)
                (cmdline Cmd_cr (Some thread) (Some crNumber) (Some x) None) w)
           = Inr (PyBool True)"
    using assms(6,7)
    by (simp add: cpu_cr_def cmdline_sel cmd_defs facade_write_cr wr raised_def)
  have g4: "fst (cpu_cr (facade_hal threadCount)
                (cmdline Cmd_cr (Some thread) (Some crNumber) None None)
                (snd (cpu_cr (facade_hal threadCount)
                        (cmdline Cmd_cr (Some thread) (Some crNumber) (Some x) None) w)))
           = Inr (PyInt x)"
    using assms(6,7) valid assms(4,5) u
    by (simp add: cpu_cr_def cmdline_sel cmd_defs facade_write_cr facade_read_cr wr raised_def
        readControlRegister_def channel_read_def Let_def)
  from g1 g2 g3 g4 show ?thesis by (intro conjI)
qed

theorem write_then_read_round_trip_witness:
  "fst (writeControlRegister 4 2 3 0x12345000 idle_channel) = Inr () \<and>
   fst (readControlRegister 4 2 3 (snd (writeControlRegister 4 2 3 0x12345000 idle_channel)))
     = Inr 0x12345000 \<and>
   fst (cpu_cr (facade_hal 4) (cmdline Cmd_cr (Some 2) (Some 3) None None)
          (snd (cpu_cr (facade_hal 4) (cmdline Cmd_cr (Some 2) (Some 3) (Some 0x1FFFF2000) None)
                  (boot idle_channel))))
     = Inr (PyInt 0x1FFFF2000)"
proof -
  have h: "hw (boot idle_channel) = idle_channel" by (simp add: boot_def)
  have p1: "(0::int) \<le> 2" and p2: "(2::int) < int 4" and p3: "(3::int) \<in> {0, 2, 3, 4, 8}"
    and p4: "reachable (hw (boot idle_channel))"
    and p5: "responding (hw (boot idle_channel)) (nat 2)"
    and p6: "(0::int) \<le> 0x1FFFF2000" and p7: "(0x1FFFF2000::int) < 2 ^ 64"
    by (simp_all add: boot_def idle_channel_def)
  from write_then_read_round_trip [OF p1 p2 p3 p4 p5 p6 p7, of "0x12345000"]
  show ?thesis unfolding h by (intro conjI) (simp_all only: simp_thms)
qed

end
